theory Spec2Isabelle
  imports Main "HOL-Library.Product_Lexorder" "HOL-Library.Multiset"
begin

section \<open>dynamicforms.models: a shallow embedding\<close>

text \<open>
  The module \<^verbatim>\<open>dynamicforms/models.py\<close> declares Django models for forms, questions
  and responses, and a small registry of question types. The embedding keeps the
  class hierarchy and the class bodies as tables (\<open>mro\<close>, \<open>class_attrs\<close>), the
  database as a record of tables (lists of rows, in insertion order), every raise as
  a value of \<open>error\<close>, and every method that writes as a function returning the new
  state.
\<close>

subsection \<open>Exceptions\<close>

datatype error =
    AttributeError string
  | DoesNotExist
  | MultipleObjectsReturned
  | NotImplementedError string
  | IndexError
  | ValueError
  | TypeError
  | IntegrityError
  | QuestionTypeRegisterError
  | AlreadyRegistered

subsection \<open>Values handed in by the form layer\<close>

text \<open>
  A cleaned form value is \<^verbatim>\<open>None\<close>, a string (CharField, ChoiceField) or a list of
  strings (MultipleChoiceField).
\<close>

datatype pyval = PyNone | PyStr string | PyList "string list"

fun truthy :: "pyval \<Rightarrow> bool" where
  "truthy PyNone = False"
| "truthy (PyStr s) = (s \<noteq> [])"
| "truthy (PyList xs) = (xs \<noteq> [])"

text \<open>\<^verbatim>\<open>for r in responses\<close>: a string is iterated character by character.\<close>

fun iterate :: "pyval \<Rightarrow> error + string list" where
  "iterate PyNone = Inl TypeError"
| "iterate (PyStr s) = Inr (map (\<lambda>c. [c]) s)"
| "iterate (PyList xs) = Inr xs"

subsection \<open>String formatting and the answer-name pattern\<close>

definition is_lower_or_hyphen :: "char \<Rightarrow> bool" where
  "is_lower_or_hyphen c =
     ((97 \<le> (of_char c :: nat) \<and> (of_char c :: nat) \<le> 122) \<or> c = CHR ''-'')"

definition is_digit :: "char \<Rightarrow> bool" where
  "is_digit c = (48 \<le> (of_char c :: nat) \<and> (of_char c :: nat) \<le> 57)"

definition digit_char :: "nat \<Rightarrow> char" where
  "digit_char d = char_of (48 + d)"

definition digit_val :: "char \<Rightarrow> nat" where
  "digit_val c = of_char c - 48"

text \<open>\<^verbatim>\<open>'%d' % n\<close> for a primary key \<open>n\<close> (an AutoField value, never negative).\<close>

fun format_d :: "nat \<Rightarrow> string" where
  "format_d n =
     (if n < 10 then [digit_char n] else format_d (n div 10) @ [digit_char (n mod 10)])"

declare format_d.simps [simp del]

text \<open>
  The ORM turns the string given as \<^verbatim>\<open>id=meta[1]\<close> into a number with \<^verbatim>\<open>int()\<close>.
  On the strings the pattern's second group can hold (one or more ASCII digits) that
  is the decimal value; anything else is a ValueError here.
\<close>

definition py_int :: "string \<Rightarrow> error + nat" where
  "py_int s =
     (if s \<noteq> [] \<and> list_all is_digit s
      then Inr (foldl (\<lambda>acc c. 10 * acc + digit_val c) 0 s)
      else Inl ValueError)"

text \<open>
  \<^verbatim>\<open>PATTERN = compile(r'^([a-z-]+)-([0-9]+)$')\<close>. The matcher follows the regex
  engine: group 1 first takes the longest run of \<^verbatim>\<open>[a-z-]\<close> and gives characters back
  one at a time (never all of them) until the rest is a hyphen, one or more digits
  and the end of the string (\<^verbatim>\<open>$\<close> also matches before one final newline).
\<close>

definition match_tail :: "string \<Rightarrow> string option" where
  "match_tail s =
     (case s of
        [] \<Rightarrow> None
      | c # t \<Rightarrow>
          if c = CHR ''-'' then
            (let d = takeWhile is_digit t; e = dropWhile is_digit t
             in if d \<noteq> [] \<and> (e = [] \<or> e = [CHR 0x0A]) then Some d else None)
          else None)"

fun backtrack :: "nat \<Rightarrow> string \<Rightarrow> (string \<times> string) option" where
  "backtrack 0 s = None"
| "backtrack (Suc k) s =
     (case match_tail (drop (Suc k) s) of
        Some d \<Rightarrow> Some (take (Suc k) s, d)
      | None \<Rightarrow> backtrack k s)"

text \<open>\<^verbatim>\<open>PATTERN.findall(s)\<close>: the pattern is anchored, so at most one pair of groups.\<close>

definition PATTERN_findall :: "string \<Rightarrow> (string \<times> string) list" where
  "PATTERN_findall s =
     (case backtrack (length (takeWhile is_lower_or_hyphen s)) s of
        None \<Rightarrow> []
      | Some m \<Rightarrow> [m])"

subsection \<open>Classes\<close>

datatype pyclass =
    Model
  | InheritanceResolveModel
  | DynamicForm
  | DynamicFormQuestion
  | DynamicTextQuestion
  | DynamicMultipleChoiceAnswer
  | DynamicMultipleChoiceQuestion
  | DynamicYesNoQuestion
  | DynamicRatingQuestion
  | DynamicRatingAnswer
  | DynamicResponseSet
  | DynamicResponse
  | DynamicTextResponse
  | DynamicMultipleChoiceResponse
  | DynamicYesNoResponse
  | DynamicRatingResponse

text \<open>The method resolution order of each class, read off the \<^verbatim>\<open>class X(Y)\<close> lines.\<close>

fun mro :: "pyclass \<Rightarrow> pyclass list" where
  "mro Model = [Model]"
| "mro InheritanceResolveModel = [InheritanceResolveModel, Model]"
| "mro DynamicForm = [DynamicForm, Model]"
| "mro DynamicFormQuestion = [DynamicFormQuestion, InheritanceResolveModel, Model]"
| "mro DynamicTextQuestion =
     [DynamicTextQuestion, DynamicFormQuestion, InheritanceResolveModel, Model]"
| "mro DynamicMultipleChoiceAnswer = [DynamicMultipleChoiceAnswer, Model]"
| "mro DynamicMultipleChoiceQuestion =
     [DynamicMultipleChoiceQuestion, DynamicFormQuestion, InheritanceResolveModel, Model]"
| "mro DynamicYesNoQuestion =
     [DynamicYesNoQuestion, DynamicMultipleChoiceQuestion, DynamicFormQuestion,
      InheritanceResolveModel, Model]"
| "mro DynamicRatingQuestion =
     [DynamicRatingQuestion, DynamicMultipleChoiceQuestion, DynamicFormQuestion,
      InheritanceResolveModel, Model]"
| "mro DynamicRatingAnswer = [DynamicRatingAnswer, Model]"
| "mro DynamicResponseSet = [DynamicResponseSet, Model]"
| "mro DynamicResponse = [DynamicResponse, Model]"
| "mro DynamicTextResponse = [DynamicTextResponse, DynamicResponse, Model]"
| "mro DynamicMultipleChoiceResponse = [DynamicMultipleChoiceResponse, DynamicResponse, Model]"
| "mro DynamicYesNoResponse = [DynamicYesNoResponse, DynamicResponse, Model]"
| "mro DynamicRatingResponse = [DynamicRatingResponse, DynamicResponse, Model]"

text \<open>\<^verbatim>\<open>class Meta: abstract = True\<close>; the framework's \<^verbatim>\<open>Model\<close> has no table either.\<close>

definition abstract :: "pyclass \<Rightarrow> bool" where
  "abstract c = (c = Model \<or> c = InheritanceResolveModel \<or> c = DynamicResponse)"

text \<open>The names each class body binds (fields, class attributes and methods).\<close>

fun class_attrs :: "pyclass \<Rightarrow> string list" where
  "class_attrs Model = [''save'']"
| "class_attrs InheritanceResolveModel =
     [''real_type'', ''save'', ''_get_real_type'', ''resolve'']"
| "class_attrs DynamicForm = [''name'', ''questions'', ''admin_url'', ''__unicode__'']"
| "class_attrs DynamicFormQuestion =
     [''question_text'', ''content_type'', ''object_id'', ''parent_object'', ''order'',
      ''__unicode__'', ''admin_url'', ''pretty_name'', ''display'', ''save_response'',
      ''get_type'', ''get_form_name'']"
| "class_attrs DynamicTextQuestion = [''pretty_name'', ''display'', ''save_response'']"
| "class_attrs DynamicMultipleChoiceAnswer = [''question'', ''answer_text'']"
| "class_attrs DynamicMultipleChoiceQuestion =
     [''choice_class'', ''PATTERN'', ''pretty_name'', ''get_choices'', ''display'',
      ''save_response'']"
| "class_attrs DynamicYesNoQuestion = [''pretty_name'', ''display'', ''save_response'']"
| "class_attrs DynamicRatingQuestion = [''pretty_name'', ''get_choices'', ''display'']"
| "class_attrs DynamicRatingAnswer = [''question'', ''answer_text'', ''__unicode__'']"
| "class_attrs DynamicResponseSet =
     [''user'', ''dynamic_form'', ''added'', ''interviewer'', ''__unicode__'', ''responses'']"
| "class_attrs DynamicResponse = [''user'', ''submitted'', ''dynamic_response_set'']"
| "class_attrs DynamicTextResponse = [''text_response'', ''question'', ''__unicode__'']"
| "class_attrs DynamicMultipleChoiceResponse = [''question'', ''answer'', ''__unicode__'']"
| "class_attrs DynamicYesNoResponse = [''question'', ''response'', ''__unicode__'']"
| "class_attrs DynamicRatingResponse = [''question'', ''response'', ''__unicode__'']"

text \<open>Attribute lookup on a class: the first class of the MRO whose body binds the name.\<close>

definition defining_class :: "pyclass \<Rightarrow> string \<Rightarrow> pyclass option" where
  "defining_class c name = List.find (\<lambda>d. name \<in> set (class_attrs d)) (mro c)"

definition hasattr :: "pyclass \<Rightarrow> string \<Rightarrow> bool" where
  "hasattr c name = (defining_class c name \<noteq> None)"

definition issubclass :: "pyclass \<Rightarrow> pyclass \<Rightarrow> bool" where
  "issubclass c d = (d \<in> set (mro c))"

definition question_classes :: "pyclass list" where
  "question_classes =
     [DynamicFormQuestion, DynamicTextQuestion, DynamicMultipleChoiceQuestion,
      DynamicYesNoQuestion, DynamicRatingQuestion]"

definition response_classes :: "pyclass list" where
  "response_classes =
     [DynamicTextResponse, DynamicMultipleChoiceResponse, DynamicYesNoResponse,
      DynamicRatingResponse]"

text \<open>\<^verbatim>\<open>cls._meta.module_name\<close>: the class name in lower case.\<close>

fun meta_module_name :: "pyclass \<Rightarrow> string" where
  "meta_module_name Model = ''model''"
| "meta_module_name InheritanceResolveModel = ''inheritanceresolvemodel''"
| "meta_module_name DynamicForm = ''dynamicform''"
| "meta_module_name DynamicFormQuestion = ''dynamicformquestion''"
| "meta_module_name DynamicTextQuestion = ''dynamictextquestion''"
| "meta_module_name DynamicMultipleChoiceAnswer = ''dynamicmultiplechoiceanswer''"
| "meta_module_name DynamicMultipleChoiceQuestion = ''dynamicmultiplechoicequestion''"
| "meta_module_name DynamicYesNoQuestion = ''dynamicyesnoquestion''"
| "meta_module_name DynamicRatingQuestion = ''dynamicratingquestion''"
| "meta_module_name DynamicRatingAnswer = ''dynamicratinganswer''"
| "meta_module_name DynamicResponseSet = ''dynamicresponseset''"
| "meta_module_name DynamicResponse = ''dynamicresponse''"
| "meta_module_name DynamicTextResponse = ''dynamictextresponse''"
| "meta_module_name DynamicMultipleChoiceResponse = ''dynamicmultiplechoiceresponse''"
| "meta_module_name DynamicYesNoResponse = ''dynamicyesnoresponse''"
| "meta_module_name DynamicRatingResponse = ''dynamicratingresponse''"

text \<open>\<^verbatim>\<open>cls.__name__\<close>, and what \<^verbatim>\<open>'%s' % cls\<close> prints.\<close>

fun class_name :: "pyclass \<Rightarrow> string" where
  "class_name Model = ''Model''"
| "class_name InheritanceResolveModel = ''InheritanceResolveModel''"
| "class_name DynamicForm = ''DynamicForm''"
| "class_name DynamicFormQuestion = ''DynamicFormQuestion''"
| "class_name DynamicTextQuestion = ''DynamicTextQuestion''"
| "class_name DynamicMultipleChoiceAnswer = ''DynamicMultipleChoiceAnswer''"
| "class_name DynamicMultipleChoiceQuestion = ''DynamicMultipleChoiceQuestion''"
| "class_name DynamicYesNoQuestion = ''DynamicYesNoQuestion''"
| "class_name DynamicRatingQuestion = ''DynamicRatingQuestion''"
| "class_name DynamicRatingAnswer = ''DynamicRatingAnswer''"
| "class_name DynamicResponseSet = ''DynamicResponseSet''"
| "class_name DynamicResponse = ''DynamicResponse''"
| "class_name DynamicTextResponse = ''DynamicTextResponse''"
| "class_name DynamicMultipleChoiceResponse = ''DynamicMultipleChoiceResponse''"
| "class_name DynamicYesNoResponse = ''DynamicYesNoResponse''"
| "class_name DynamicRatingResponse = ''DynamicRatingResponse''"

definition class_str :: "pyclass \<Rightarrow> string" where
  "class_str c = ''<class 'dynamicforms.models.'' @ class_name c @ [CHR 0x27, CHR ''>'']"

definition app_label :: "pyclass \<Rightarrow> string" where
  "app_label c = ''dynamicforms''"

text \<open>
  A row of the content-type table: the content type of a class of this module, or a
  stale one whose \<^verbatim>\<open>model_class()\<close> is \<^verbatim>\<open>None\<close> (named by its label).
\<close>

datatype content_type = ContentType pyclass | StaleContentType string

fun model_class :: "content_type \<Rightarrow> pyclass option" where
  "model_class (ContentType c) = Some c"
| "model_class (StaleContentType n) = None"

text \<open>\<^verbatim>\<open>str(content_type)\<close> is its name: the verbose name of the model class.\<close>

fun verbose_name :: "pyclass \<Rightarrow> string" where
  "verbose_name Model = ''model''"
| "verbose_name InheritanceResolveModel = ''inheritance resolve model''"
| "verbose_name DynamicForm = ''dynamic form''"
| "verbose_name DynamicFormQuestion = ''dynamic form question''"
| "verbose_name DynamicTextQuestion = ''dynamic text question''"
| "verbose_name DynamicMultipleChoiceAnswer = ''dynamic multiple choice answer''"
| "verbose_name DynamicMultipleChoiceQuestion = ''dynamic multiple choice question''"
| "verbose_name DynamicYesNoQuestion = ''dynamic yes no question''"
| "verbose_name DynamicRatingQuestion = ''dynamic rating question''"
| "verbose_name DynamicRatingAnswer = ''dynamic rating answer''"
| "verbose_name DynamicResponseSet = ''dynamic response set''"
| "verbose_name DynamicResponse = ''dynamic response''"
| "verbose_name DynamicTextResponse = ''dynamic text response''"
| "verbose_name DynamicMultipleChoiceResponse = ''dynamic multiple choice response''"
| "verbose_name DynamicYesNoResponse = ''dynamic yes no response''"
| "verbose_name DynamicRatingResponse = ''dynamic rating response''"

fun content_type_str :: "content_type \<Rightarrow> string" where
  "content_type_str (ContentType c) = verbose_name c"
| "content_type_str (StaleContentType n) = n"

subsection \<open>Rows, instances and the database\<close>

text \<open>
  Foreign keys are held as the primary key of the row they point at; users (a model of
  the framework) appear only as such keys, and time stamps are numbers. A question
  instance in memory has the class it was built or fetched as, and no id before its
  first save; a row of the parent table always has one. A text response keeps the
  value as it was handed to \<^verbatim>\<open>create\<close>.
\<close>

record form =
  f_id :: nat
  f_name :: string

record question =
  q_class :: pyclass
  q_id :: "nat option"
  q_real_type :: "content_type option"
  q_question_text :: string
  q_content_type :: content_type
  q_object_id :: nat
  q_order :: int

record question_row =
  row_id :: nat
  row_real_type :: "content_type option"
  row_question_text :: string
  row_content_type :: content_type
  row_object_id :: nat
  row_order :: int

record answer =
  a_id :: nat
  a_question :: nat
  a_answer_text :: string

record response_set =
  rs_id :: nat
  rs_user :: nat
  rs_dynamic_form :: nat
  rs_added :: nat
  rs_interviewer :: "nat option"

record text_response =
  tr_id :: nat
  tr_user :: nat
  tr_submitted :: nat
  tr_dynamic_response_set :: nat
  tr_text_response :: pyval
  tr_question :: nat

record choice_response =
  cr_id :: nat
  cr_user :: nat
  cr_submitted :: nat
  cr_dynamic_response_set :: nat
  cr_question :: nat
  cr_answer :: nat

record yesno_response =
  yr_id :: nat
  yr_user :: nat
  yr_submitted :: nat
  yr_dynamic_response_set :: nat
  yr_question :: nat
  yr_response :: bool

record rating_response =
  rr_id :: nat
  rr_user :: nat
  rr_submitted :: nat
  rr_dynamic_response_set :: nat
  rr_question :: nat
  rr_response :: nat

text \<open>
  One table per concrete model. \<^verbatim>\<open>DynamicFormQuestion\<close> is a concrete parent
  (multi-table inheritance): every question has a row in its table, and each subclass
  has a table of its own that holds only the link to the parent row.
  \<open>submitted_default\<close> is the value \<^verbatim>\<open>datetime.utcnow()\<close> had when the class body of
  \<^verbatim>\<open>DynamicResponse\<close> ran: the field's default is that one value.
\<close>

record database =
  t_dynamicform :: "form list"
  t_dynamicformquestion :: "question_row list"
  t_dynamictextquestion :: "nat list"
  t_dynamicmultiplechoicequestion :: "nat list"
  t_dynamicyesnoquestion :: "nat list"
  t_dynamicratingquestion :: "nat list"
  t_dynamicmultiplechoiceanswer :: "answer list"
  t_dynamicratinganswer :: "answer list"
  t_dynamicresponseset :: "response_set list"
  t_dynamictextresponse :: "text_response list"
  t_dynamicmultiplechoiceresponse :: "choice_response list"
  t_dynamicyesnoresponse :: "yesno_response list"
  t_dynamicratingresponse :: "rating_response list"
  submitted_default :: nat

datatype pyobject =
    FormObj form
  | QuestionObj question
  | MultipleChoiceAnswerObj answer
  | RatingAnswerObj answer
  | ResponseSetObj response_set
  | TextResponseObj text_response
  | MultipleChoiceResponseObj choice_response
  | YesNoResponseObj yesno_response
  | RatingResponseObj rating_response

subsection \<open>The ORM calls the module makes\<close>

text \<open>\<^verbatim>\<open>Manager.get\<close> on one table: exactly one row must match.\<close>

definition get_by :: "('r \<Rightarrow> nat) \<Rightarrow> nat \<Rightarrow> 'r list \<Rightarrow> error + 'r" where
  "get_by key pk tbl =
     (case filter (\<lambda>r. key r = pk) tbl of
        [] \<Rightarrow> Inl DoesNotExist
      | [r] \<Rightarrow> Inr r
      | _ \<Rightarrow> Inl MultipleObjectsReturned)"

text \<open>The key an AutoField gives a new row: above every key in the table.\<close>

definition next_id :: "nat list \<Rightarrow> nat" where
  "next_id ids = Suc (foldr max ids 0)"

text \<open>The link table of a question subclass, and the subclass tables a class joins.\<close>

fun ptrs :: "database \<Rightarrow> pyclass \<Rightarrow> nat list" where
  "ptrs db DynamicTextQuestion = t_dynamictextquestion db"
| "ptrs db DynamicMultipleChoiceQuestion = t_dynamicmultiplechoicequestion db"
| "ptrs db DynamicYesNoQuestion = t_dynamicyesnoquestion db"
| "ptrs db DynamicRatingQuestion = t_dynamicratingquestion db"
| "ptrs db c = []"

definition has_link_table :: "pyclass \<Rightarrow> bool" where
  "has_link_table c =
     (c = DynamicTextQuestion \<or> c = DynamicMultipleChoiceQuestion \<or>
      c = DynamicYesNoQuestion \<or> c = DynamicRatingQuestion)"

definition link_tables :: "pyclass \<Rightarrow> pyclass list" where
  "link_tables c = filter has_link_table (mro c)"

definition instance_of :: "pyclass \<Rightarrow> question_row \<Rightarrow> question" where
  "instance_of c r =
     \<lparr>q_class = c, q_id = Some (row_id r), q_real_type = row_real_type r,
      q_question_text = row_question_text r, q_content_type = row_content_type r,
      q_object_id = row_object_id r, q_order = row_order r\<rparr>"

definition row_of :: "nat \<Rightarrow> question \<Rightarrow> question_row" where
  "row_of n q =
     \<lparr>row_id = n, row_real_type = q_real_type q, row_question_text = q_question_text q,
      row_content_type = q_content_type q, row_object_id = q_object_id q,
      row_order = q_order q\<rparr>"

text \<open>
  \<^verbatim>\<open>c.objects.get(pk=n)\<close> for a question class: the parent row joined with the link
  tables of \<open>c\<close> and of the subclasses above it.
\<close>

definition get_question :: "database \<Rightarrow> pyclass \<Rightarrow> nat \<Rightarrow> error + question" where
  "get_question db c n =
     (case get_by row_id n
             (filter (\<lambda>r. list_all (\<lambda>d. row_id r \<in> set (ptrs db d)) (link_tables c))
                (t_dynamicformquestion db)) of
        Inl e \<Rightarrow> Inl e
      | Inr r \<Rightarrow> Inr (instance_of c r))"

text \<open>
  \<^verbatim>\<open>c.objects.get(pk=n)\<close> for any class of the module. An abstract model has no
  manager: asking for one is an AttributeError.
\<close>

definition manager_unavailable :: "pyclass \<Rightarrow> error" where
  "manager_unavailable c =
     AttributeError (''Manager isn't available; '' @ class_name c @ '' is abstract'')"

definition objects_get :: "database \<Rightarrow> pyclass \<Rightarrow> nat \<Rightarrow> error + pyobject" where
  "objects_get db c n =
     (if abstract c then Inl (manager_unavailable c)
      else if c \<in> set question_classes then map_sum id QuestionObj (get_question db c n)
      else if c = DynamicForm then map_sum id FormObj (get_by f_id n (t_dynamicform db))
      else if c = DynamicMultipleChoiceAnswer then
        map_sum id MultipleChoiceAnswerObj (get_by a_id n (t_dynamicmultiplechoiceanswer db))
      else if c = DynamicRatingAnswer then
        map_sum id RatingAnswerObj (get_by a_id n (t_dynamicratinganswer db))
      else if c = DynamicResponseSet then
        map_sum id ResponseSetObj (get_by rs_id n (t_dynamicresponseset db))
      else if c = DynamicTextResponse then
        map_sum id TextResponseObj (get_by tr_id n (t_dynamictextresponse db))
      else if c = DynamicMultipleChoiceResponse then
        map_sum id MultipleChoiceResponseObj
          (get_by cr_id n (t_dynamicmultiplechoiceresponse db))
      else if c = DynamicYesNoResponse then
        map_sum id YesNoResponseObj (get_by yr_id n (t_dynamicyesnoresponse db))
      else map_sum id RatingResponseObj (get_by rr_id n (t_dynamicratingresponse db)))"

text \<open>
  \<^verbatim>\<open>content_type.get_object_for_this_type(pk=pk)\<close>, that is
  \<^verbatim>\<open>self.model_class()._default_manager.get(pk=pk)\<close>: a stale content type has no
  model class, and the attribute access on \<^verbatim>\<open>None\<close> is an AttributeError; a lookup
  with \<^verbatim>\<open>pk=None\<close> matches no row.
\<close>

definition get_object_for_this_type ::
  "database \<Rightarrow> content_type \<Rightarrow> nat option \<Rightarrow> error + pyobject" where
  "get_object_for_this_type db ct pk =
     (case model_class ct of
        None \<Rightarrow> Inl (AttributeError ''NoneType object has no attribute _default_manager'')
      | Some c \<Rightarrow>
          if abstract c then Inl (manager_unavailable c)
          else (case pk of
                  None \<Rightarrow> Inl DoesNotExist
                | Some n \<Rightarrow> objects_get db c n))"

subsection \<open>InheritanceResolveModel\<close>

text \<open>
  \<^verbatim>\<open>Model.save\<close> of the framework, for a question: with no primary key the parent row
  is inserted under a new key, otherwise the row with that key is updated, or inserted
  when there is none; the same for the link table of each subclass on the way.
\<close>

definition upsert_row :: "question_row \<Rightarrow> question_row list \<Rightarrow> question_row list" where
  "upsert_row r tbl =
     (if row_id r \<in> set (map row_id tbl)
      then map (\<lambda>x. if row_id x = row_id r then r else x) tbl
      else tbl @ [r])"

definition insert_ptr :: "nat \<Rightarrow> nat list \<Rightarrow> nat list" where
  "insert_ptr n ps = (if n \<in> set ps then ps else ps @ [n])"

fun link_row :: "nat \<Rightarrow> pyclass \<Rightarrow> database \<Rightarrow> database" where
  "link_row n DynamicTextQuestion db =
     db\<lparr>t_dynamictextquestion := insert_ptr n (t_dynamictextquestion db)\<rparr>"
| "link_row n DynamicMultipleChoiceQuestion db =
     db\<lparr>t_dynamicmultiplechoicequestion := insert_ptr n (t_dynamicmultiplechoicequestion db)\<rparr>"
| "link_row n DynamicYesNoQuestion db =
     db\<lparr>t_dynamicyesnoquestion := insert_ptr n (t_dynamicyesnoquestion db)\<rparr>"
| "link_row n DynamicRatingQuestion db =
     db\<lparr>t_dynamicratingquestion := insert_ptr n (t_dynamicratingquestion db)\<rparr>"
| "link_row n c db = db"

definition Model_save :: "database \<Rightarrow> question \<Rightarrow> question \<times> database" where
  "Model_save db q =
     (let n = (case q_id q of
                 None \<Rightarrow> next_id (map row_id (t_dynamicformquestion db))
               | Some k \<Rightarrow> k);
          db1 = db\<lparr>t_dynamicformquestion :=
                      upsert_row (row_of n q) (t_dynamicformquestion db)\<rparr>
      in (q\<lparr>q_id := Some n\<rparr>, foldr (link_row n) (link_tables (q_class q)) db1))"

text \<open>\<^verbatim>\<open>ContentType.objects.get_for_model(type(self))\<close>.\<close>

definition get_real_type :: "question \<Rightarrow> content_type" where
  "get_real_type self = ContentType (q_class self)"

text \<open>
  \<^verbatim>\<open>InheritanceResolveModel.save\<close>: \<^verbatim>\<open>not self.id\<close> holds for \<^verbatim>\<open>None\<close> and for 0.
  The instance is returned as the call leaves it.
\<close>

definition save :: "database \<Rightarrow> question \<Rightarrow> question \<times> database" where
  "save db self =
     Model_save db
       (if q_id self = None \<or> q_id self = Some 0
        then self\<lparr>q_real_type := Some (get_real_type self)\<rparr>
        else self)"

text \<open>\<^verbatim>\<open>DynamicFormQuestion.__unicode__\<close>, which \<^verbatim>\<open>'%s' % self\<close> prints.\<close>

definition question_unicode :: "question \<Rightarrow> string" where
  "question_unicode self = take 20 (q_question_text self) @ ''...''"

definition resolve_message :: "question \<Rightarrow> string" where
  "resolve_message self =
     ''Failed to access real type for '' @ question_unicode self @
     '' with self.real_type='' @
     (case q_real_type self of None \<Rightarrow> ''None'' | Some ct \<Rightarrow> content_type_str ct)"

text \<open>
  \<^verbatim>\<open>InheritanceResolveModel.resolve\<close>: an AttributeError raised inside the \<^verbatim>\<open>try\<close>
  is replaced by the module's own; any other exception passes through.
\<close>

definition resolve :: "database \<Rightarrow> question \<Rightarrow> error + pyobject" where
  "resolve db self =
     (case (case q_real_type self of
              None \<Rightarrow>
                Inl (AttributeError
                       ''NoneType object has no attribute get_object_for_this_type'')
            | Some ct \<Rightarrow> get_object_for_this_type db ct (q_id self)) of
        Inl (AttributeError m) \<Rightarrow> Inl (AttributeError (resolve_message self))
      | r \<Rightarrow> r)"

subsection \<open>DynamicForm.questions\<close>

text \<open>
  \<^verbatim>\<open>questions = generic.GenericRelation('DynamicFormQuestion')\<close>: the questions whose
  generic foreign key names this form, in the order of
  \<^verbatim>\<open>Meta.ordering = ['order', 'id']\<close>.
\<close>

definition Meta_ordering :: "question_row \<Rightarrow> int \<times> nat" where
  "Meta_ordering r = (row_order r, row_id r)"

definition questions :: "database \<Rightarrow> form \<Rightarrow> question list" where
  "questions db self =
     map (instance_of DynamicFormQuestion)
       (sort_key Meta_ordering
          (filter (\<lambda>r. row_content_type r = ContentType DynamicForm \<and>
                        row_object_id r = f_id self)
             (t_dynamicformquestion db)))"

subsection \<open>Question types\<close>

definition pretty_name :: "pyclass \<Rightarrow> error + string" where
  "pretty_name cls =
     (case defining_class cls ''pretty_name'' of
        None \<Rightarrow> Inl (AttributeError ''type object has no attribute pretty_name'')
      | Some d \<Rightarrow>
          if d = DynamicTextQuestion then Inr ''Text question''
          else if d = DynamicMultipleChoiceQuestion then Inr ''Multiple choice question''
          else if d = DynamicYesNoQuestion then Inr ''Yes/No question''
          else if d = DynamicRatingQuestion then Inr ''Rating question''
          else Inl (NotImplementedError
                      ''You should resolve me first before you ask me my name''))"

definition choice_name :: "nat \<Rightarrow> string" where
  "choice_name n = ''dynamic-multiple-choice-answer-'' @ format_d n"

definition rating_choice_name :: "nat \<Rightarrow> string" where
  "rating_choice_name n = ''dynamic-rating-answer-'' @ format_d n"

text \<open>
  \<^verbatim>\<open>get_choices\<close>: \<^verbatim>\<open>DynamicRatingQuestion\<close> overrides the one of
  \<^verbatim>\<open>DynamicMultipleChoiceQuestion\<close>; the other classes have none.
\<close>

definition related_answers :: "question \<Rightarrow> answer list \<Rightarrow> answer list" where
  "related_answers self tbl = filter (\<lambda>a. Some (a_question a) = q_id self) tbl"

definition get_choices :: "database \<Rightarrow> question \<Rightarrow> error + (string \<times> string) list" where
  "get_choices db self =
     (case defining_class (q_class self) ''get_choices'' of
        None \<Rightarrow> Inl (AttributeError ''object has no attribute get_choices'')
      | Some d \<Rightarrow>
          if d = DynamicRatingQuestion then
            Inr (map (\<lambda>a. (rating_choice_name (a_id a), a_answer_text a))
                   (related_answers self (t_dynamicratinganswer db)))
          else
            Inr (map (\<lambda>a. (choice_name (a_id a), a_answer_text a))
                   (related_answers self (t_dynamicmultiplechoiceanswer db))))"

subsection \<open>save_response\<close>

text \<open>
  The class methods take the user and the response set as objects and store their
  keys; here they are given by key. \<open>cls\<close> is the class the method is called on.
  Each returns the exception raised, if any, and the database as the call leaves it.
\<close>

definition DynamicTextQuestion_save_response ::
  "database \<Rightarrow> pyclass \<Rightarrow> nat \<Rightarrow> nat \<Rightarrow> pyval \<Rightarrow> nat \<Rightarrow> (error + unit) \<times> database" where
  "DynamicTextQuestion_save_response db cls user question_id response response_set =
     (case get_question db cls question_id of
        Inl e \<Rightarrow> (Inl e, db)
      | Inr q \<Rightarrow>
          if response = PyNone then (Inl IntegrityError, db)
          else
            (Inr (),
             db\<lparr>t_dynamictextresponse := t_dynamictextresponse db @
                  [\<lparr>tr_id = next_id (map tr_id (t_dynamictextresponse db)),
                    tr_user = user,
                    tr_submitted = submitted_default db,
                    tr_dynamic_response_set = response_set,
                    tr_text_response = response,
                    tr_question = question_id\<rparr>]\<rparr>))"

text \<open>
  \<^verbatim>\<open>meta = cls.PATTERN.findall(r)[0]\<close> and
  \<^verbatim>\<open>DynamicMultipleChoiceAnswer.objects.get(id=meta[1])\<close>.
\<close>

definition answer_for :: "database \<Rightarrow> string \<Rightarrow> error + answer" where
  "answer_for db r =
     (case PATTERN_findall r of
        [] \<Rightarrow> Inl IndexError
      | meta # _ \<Rightarrow>
          (case py_int (snd meta) of
             Inl e \<Rightarrow> Inl e
           | Inr n \<Rightarrow> get_by a_id n (t_dynamicmultiplechoiceanswer db)))"

text \<open>
  In the module, \<^verbatim>\<open>models\<close> is \<^verbatim>\<open>django.db.models\<close> (line 7). These are the names the
  module takes from it; the framework has more, none of them a model of this module.
\<close>

definition django_db_models :: "string list" where
  "django_db_models =
     [''Model'', ''ForeignKey'', ''TextField'', ''CharField'', ''PositiveIntegerField'',
      ''IntegerField'', ''DateTimeField'', ''BooleanField'']"

text \<open>
  The loop body of \<^verbatim>\<open>DynamicMultipleChoiceQuestion.save_response\<close>. The row is to be
  created through \<^verbatim>\<open>models.DynamicMultipleChoiceResponse\<close>, an attribute looked up on
  \<^verbatim>\<open>django.db.models\<close>.
\<close>

fun save_choices ::
  "database \<Rightarrow> nat \<Rightarrow> nat \<Rightarrow> nat \<Rightarrow> string list \<Rightarrow> (error + unit) \<times> database" where
  "save_choices db user question_id response_set [] = (Inr (), db)"
| "save_choices db user question_id response_set (r # rest) =
     (case answer_for db r of
        Inl e \<Rightarrow> (Inl e, db)
      | Inr answer \<Rightarrow>
          if ''DynamicMultipleChoiceResponse'' \<in> set django_db_models then
            save_choices
              (db\<lparr>t_dynamicmultiplechoiceresponse := t_dynamicmultiplechoiceresponse db @
                   [\<lparr>cr_id = next_id (map cr_id (t_dynamicmultiplechoiceresponse db)),
                     cr_user = user,
                     cr_submitted = submitted_default db,
                     cr_dynamic_response_set = response_set,
                     cr_question = question_id,
                     cr_answer = a_id answer\<rparr>]\<rparr>)
              user question_id response_set rest
          else
            (Inl (AttributeError
                    ''module object has no attribute DynamicMultipleChoiceResponse''),
             db))"

definition DynamicMultipleChoiceQuestion_save_response ::
  "database \<Rightarrow> pyclass \<Rightarrow> nat \<Rightarrow> nat \<Rightarrow> pyval \<Rightarrow> nat \<Rightarrow> (error + unit) \<times> database" where
  "DynamicMultipleChoiceQuestion_save_response db cls user question_id responses response_set =
     (case get_question db cls question_id of
        Inl e \<Rightarrow> (Inl e, db)
      | Inr q \<Rightarrow>
          if truthy responses then
            (case iterate responses of
               Inl e \<Rightarrow> (Inl e, db)
             | Inr rs \<Rightarrow> save_choices db user question_id response_set rs)
          else (Inr (), db))"

definition DynamicYesNoQuestion_save_response ::
  "database \<Rightarrow> pyclass \<Rightarrow> nat \<Rightarrow> nat \<Rightarrow> pyval \<Rightarrow> nat \<Rightarrow> (error + unit) \<times> database" where
  "DynamicYesNoQuestion_save_response db cls user question_id response response_set =
     (case get_question db cls question_id of
        Inl e \<Rightarrow> (Inl e, db)
      | Inr q \<Rightarrow>
          (Inr (),
           db\<lparr>t_dynamicyesnoresponse := t_dynamicyesnoresponse db @
                [\<lparr>yr_id = next_id (map yr_id (t_dynamicyesnoresponse db)),
                  yr_user = user,
                  yr_submitted = submitted_default db,
                  yr_dynamic_response_set = response_set,
                  yr_question = question_id,
                  yr_response = (if response = PyStr ''yes'' then True else False)\<rparr>]\<rparr>))"

text \<open>
  \<^verbatim>\<open>cls.save_response(user, question_id, response, response_set)\<close>: the method of the
  first class in the MRO of \<open>cls\<close> that defines one. The one of \<^verbatim>\<open>DynamicFormQuestion\<close>
  raises NotImplementedError.
\<close>

definition save_response ::
  "database \<Rightarrow> pyclass \<Rightarrow> nat \<Rightarrow> nat \<Rightarrow> pyval \<Rightarrow> nat \<Rightarrow> (error + unit) \<times> database" where
  "save_response db cls user question_id response response_set =
     (case defining_class cls ''save_response'' of
        None \<Rightarrow> (Inl (AttributeError ''type object has no attribute save_response''), db)
      | Some d \<Rightarrow>
          if d = DynamicTextQuestion then
            DynamicTextQuestion_save_response db cls user question_id response response_set
          else if d = DynamicMultipleChoiceQuestion then
            DynamicMultipleChoiceQuestion_save_response db cls user question_id response
              response_set
          else if d = DynamicYesNoQuestion then
            DynamicYesNoQuestion_save_response db cls user question_id response response_set
          else
            (Inl (NotImplementedError
                    (''My name is '' @ class_str cls @
                     '' and I don't know how to save a response.'')),
             db))"

subsection \<open>DynamicResponseSet.responses\<close>

definition responses :: "database \<Rightarrow> response_set \<Rightarrow> pyobject list" where
  "responses db self =
     map MultipleChoiceResponseObj
       (filter (\<lambda>r. cr_dynamic_response_set r = rs_id self)
          (t_dynamicmultiplechoiceresponse db)) @
     map TextResponseObj
       (filter (\<lambda>r. tr_dynamic_response_set r = rs_id self) (t_dynamictextresponse db)) @
     map RatingResponseObj
       (filter (\<lambda>r. rr_dynamic_response_set r = rs_id self) (t_dynamicratingresponse db)) @
     map YesNoResponseObj
       (filter (\<lambda>r. yr_dynamic_response_set r = rs_id self) (t_dynamicyesnoresponse db))"

subsection \<open>The registry of question types\<close>

definition DEFAULT_QUESTION_TYPES :: "string list" where
  "DEFAULT_QUESTION_TYPES =
     [''dynamicforms.models.DynamicTextQuestion'',
      ''dynamicforms.models.DynamicYesNoQuestion'',
      ''dynamicforms.models.DynamicMultipleChoiceQuestion'',
      ''dynamicforms.models.DynamicRatingQuestion'']"

text \<open>
  What a configured string may name: a class of this module, or an object defined
  elsewhere, given by how it answers the attribute accesses the module makes on it.
  \<open>ext_pretty_name\<close> is \<open>None\<close> when it has no \<^verbatim>\<open>pretty_name\<close> and otherwise what
  calling it gives; \<open>ext_meta\<close> is \<open>None\<close> when it has no \<^verbatim>\<open>_meta\<close> (it is not a model)
  and otherwise the \<^verbatim>\<open>app_label\<close> and the \<^verbatim>\<open>module_name\<close>; \<open>ext_choice_class\<close> is the
  dotted path of its \<^verbatim>\<open>choice_class\<close>, if it has one.
\<close>

record external_class =
  ext_path :: string
  ext_pretty_name :: "(error + string) option"
  ext_meta :: "(string \<times> string) option"
  ext_choice_class :: "string option"

datatype class_object = ModuleClass pyclass | ExternalClass external_class

definition dotted_path :: "pyclass \<Rightarrow> string" where
  "dotted_path c = ''dynamicforms.models.'' @ class_name c"

text \<open>\<^verbatim>\<open>class_.pretty_name()\<close>.\<close>

fun class_pretty_name :: "class_object \<Rightarrow> error + string" where
  "class_pretty_name (ModuleClass c) = pretty_name c"
| "class_pretty_name (ExternalClass x) =
     (case ext_pretty_name x of
        None \<Rightarrow> Inl (AttributeError ''type object has no attribute pretty_name'')
      | Some r \<Rightarrow> r)"

text \<open>
  \<^verbatim>\<open>class_._meta\<close>, as the pair of \<^verbatim>\<open>app_label\<close> and \<^verbatim>\<open>module_name\<close>. The framework's
  \<^verbatim>\<open>Model\<close> itself has none.
\<close>

fun class_meta :: "class_object \<Rightarrow> error + string \<times> string" where
  "class_meta (ModuleClass c) =
     (if c = Model then Inl (AttributeError ''type object has no attribute _meta'')
      else Inr (app_label c, meta_module_name c))"
| "class_meta (ExternalClass x) =
     (case ext_meta x of
        None \<Rightarrow> Inl (AttributeError ''type object has no attribute _meta'')
      | Some m \<Rightarrow> Inr m)"

text \<open>
  \<^verbatim>\<open>class_.choice_class\<close>, by dotted path: in this module it is bound in one class
  body, to \<^verbatim>\<open>DynamicMultipleChoiceAnswer\<close>.
\<close>

fun class_choice_class :: "class_object \<Rightarrow> string option" where
  "class_choice_class (ModuleClass c) =
     (case defining_class c ''choice_class'' of
        None \<Rightarrow> None
      | Some d \<Rightarrow> Some (dotted_path DynamicMultipleChoiceAnswer))"
| "class_choice_class (ExternalClass x) = ext_choice_class x"

text \<open>An entry of the registry: the dict with the keys \<^verbatim>\<open>pretty_name\<close>, \<^verbatim>\<open>slug\<close>, \<^verbatim>\<open>class\<close>.\<close>

record question_type =
  qt_pretty_name :: string
  qt_slug :: string
  qt_class :: class_object

text \<open>
  The loop of \<^verbatim>\<open>register_questions_types\<close>, with the list built so far and the lines
  printed so far. \<^verbatim>\<open>utils.get_class\<close> is not among the sources of the module, so the
  importer is a parameter: it returns what a string names or raises. Only
  \<^verbatim>\<open>QuestionTypeRegisterError\<close> is caught; the dict is built outside the \<^verbatim>\<open>try\<close>,
  \<^verbatim>\<open>class_.pretty_name()\<close> first and \<^verbatim>\<open>class_._meta.module_name\<close> second.
\<close>

fun register_loop ::
  "(string \<Rightarrow> error + class_object) \<Rightarrow> string list \<Rightarrow> question_type list \<Rightarrow> string list \<Rightarrow>
   (error + question_type list) \<times> string list" where
  "register_loop get_class [] question_types out = (Inr question_types, out)"
| "register_loop get_class (t # ts) question_types out =
     (case get_class t of
        Inl e \<Rightarrow>
          if e = QuestionTypeRegisterError
          then register_loop get_class ts question_types (out @ [''Failed to register '' @ t])
          else (Inl e, out)
      | Inr cls \<Rightarrow>
          (case class_pretty_name cls of
             Inl e \<Rightarrow> (Inl e, out)
           | Inr pn \<Rightarrow>
               (case class_meta cls of
                  Inl e \<Rightarrow> (Inl e, out)
                | Inr meta \<Rightarrow>
                    register_loop get_class ts
                      (question_types @
                       [\<lparr>qt_pretty_name = pn, qt_slug = snd meta, qt_class = cls\<rparr>])
                      out)))"

text \<open>
  \<^verbatim>\<open>register_questions_types(*tuples)\<close>: the registry, or the exception that ended the
  call, and the lines printed.
\<close>

definition register_questions_types ::
  "(string \<Rightarrow> error + class_object) \<Rightarrow> string list list \<Rightarrow>
   (error + question_type list) \<times> string list" where
  "register_questions_types get_class tuples = register_loop get_class (concat tuples) [] []"

text \<open>\<^verbatim>\<open>_get_creation_choices()\<close>, reading the registry.\<close>

fun creation_choices_loop ::
  "question_type list \<Rightarrow> (string \<times> string) list \<Rightarrow> error + (string \<times> string) list" where
  "creation_choices_loop [] choices = Inr choices"
| "creation_choices_loop (question_type # rest) choices =
     (case class_meta (qt_class question_type) of
        Inl e \<Rightarrow> Inl e
      | Inr meta \<Rightarrow>
          creation_choices_loop rest
            (choices @
             [(''/admin/'' @ fst meta @ ''/'' @ qt_slug question_type @ ''/add/'',
               qt_pretty_name question_type)]))"

definition get_creation_choices :: "question_type list \<Rightarrow> error + (string \<times> string) list" where
  "get_creation_choices registry = creation_choices_loop registry [('''', ''------'')]"

text \<open>
  What the module holds once loaded: its two globals, what it has registered with the
  admin site (each class with whether its admin class has the inline),
  the \<^verbatim>\<open>model\<close> attribute it sets on the framework's \<^verbatim>\<open>StackedInline\<close> (by dotted
  path), the lines it has printed, and the database.
\<close>

record module_state =
  QUESTION_TYPES :: "question_type list"
  CHOICES :: "(string \<times> string) list"
  admin_registry :: "(class_object \<times> bool) list"
  StackedInline_model :: "string option"
  stdout :: "string list"
  ms_db :: database

text \<open>
  The loop of \<^verbatim>\<open>register_admin\<close>; \<^verbatim>\<open>admin.site.register\<close> raises AlreadyRegistered for
  a class it already has.
\<close>

fun register_admin_loop ::
  "question_type list \<Rightarrow> module_state \<Rightarrow> (error + unit) \<times> module_state" where
  "register_admin_loop [] m = (Inr (), m)"
| "register_admin_loop (t # ts) m =
     (let cls = qt_class t;
          m1 = (case class_choice_class cls of
                  None \<Rightarrow> m
                | Some cc \<Rightarrow> m\<lparr>StackedInline_model := Some cc\<rparr>)
      in if cls \<in> set (map fst (admin_registry m1)) then (Inl AlreadyRegistered, m1)
         else register_admin_loop ts
                (m1\<lparr>admin_registry := admin_registry m1 @
                       [(cls, class_choice_class cls \<noteq> None)]\<rparr>))"

definition register_admin :: "module_state \<Rightarrow> (error + unit) \<times> module_state" where
  "register_admin m = register_admin_loop (QUESTION_TYPES m) m"

text \<open>
  Loading the module runs its top-level statements once, in order: the registry, the
  choices, the admin registration. An exception in any of them ends the import.
\<close>

definition module_load ::
  "(string \<Rightarrow> error + class_object) \<Rightarrow> string list \<Rightarrow> database \<Rightarrow> error + module_state" where
  "module_load get_class DYNAMICFORMS_CUSTOM_TYPES db0 =
     (case register_questions_types get_class
             [DEFAULT_QUESTION_TYPES, DYNAMICFORMS_CUSTOM_TYPES] of
        (Inl e, out) \<Rightarrow> Inl e
      | (Inr registry, out) \<Rightarrow>
          (case get_creation_choices registry of
             Inl e \<Rightarrow> Inl e
           | Inr choices \<Rightarrow>
               (case register_admin
                       \<lparr>QUESTION_TYPES = registry,
                        CHOICES = choices,
                        admin_registry = [],
                        StackedInline_model = None,
                        stdout = out,
                        ms_db = db0\<rparr> of
                  (Inl e, m) \<Rightarrow> Inl e
                | (Inr u, m) \<Rightarrow> Inr m)))"

text \<open>
  The operations of the loaded module, each as its effect on the module's state (what
  a call returns is given by the functions above).
\<close>

datatype operation =
    Call_save question
  | Call_resolve question
  | Call_save_response pyclass nat nat pyval nat
  | Call_questions form
  | Call_responses response_set
  | Call_get_choices question
  | Call_pretty_name pyclass
  | Call_register_questions_types "string list list"
  | Call_get_creation_choices
  | Call_register_admin

fun exec ::
  "(string \<Rightarrow> error + class_object) \<Rightarrow> module_state \<Rightarrow> operation \<Rightarrow> module_state" where
  "exec get_class m (Call_save q) = m\<lparr>ms_db := snd (save (ms_db m) q)\<rparr>"
| "exec get_class m (Call_resolve q) = m"
| "exec get_class m (Call_save_response cls user question_id response response_set) =
     m\<lparr>ms_db := snd (save_response (ms_db m) cls user question_id response response_set)\<rparr>"
| "exec get_class m (Call_questions f) = m"
| "exec get_class m (Call_responses rs) = m"
| "exec get_class m (Call_get_choices q) = m"
| "exec get_class m (Call_pretty_name cls) = m"
| "exec get_class m (Call_register_questions_types tuples) =
     m\<lparr>stdout := stdout m @ snd (register_questions_types get_class tuples)\<rparr>"
| "exec get_class m Call_get_creation_choices = m"
| "exec get_class m Call_register_admin = snd (register_admin m)"

text \<open>
  An importer for concrete runs. It knows the classes defined in this module by their
  dotted path, and three things outside it: a question type of another application,
  a class that has a \<^verbatim>\<open>pretty_name\<close> but is no model, and a path with no dot in it,
  for which it raises ValueError. For every other string it raises
  \<^verbatim>\<open>QuestionTypeRegisterError\<close>.
\<close>

definition module_classes :: "pyclass list" where
  "module_classes =
     [InheritanceResolveModel, DynamicForm, DynamicFormQuestion, DynamicTextQuestion,
      DynamicMultipleChoiceAnswer, DynamicMultipleChoiceQuestion, DynamicYesNoQuestion,
      DynamicRatingQuestion, DynamicRatingAnswer, DynamicResponseSet, DynamicResponse,
      DynamicTextResponse, DynamicMultipleChoiceResponse, DynamicYesNoResponse,
      DynamicRatingResponse]"

definition DateQuestion :: external_class where
  "DateQuestion =
     \<lparr>ext_path = ''surveys.models.DateQuestion'',
      ext_pretty_name = Some (Inr ''Date question''),
      ext_meta = Some (''surveys'', ''datequestion''),
      ext_choice_class = None\<rparr>"

definition Labelled :: external_class where
  "Labelled =
     \<lparr>ext_path = ''surveys.helpers.Labelled'',
      ext_pretty_name = Some (Inr ''Labelled''),
      ext_meta = None,
      ext_choice_class = None\<rparr>"

definition get_class_dotted :: "string \<Rightarrow> error + class_object" where
  "get_class_dotted t =
     (if t = ext_path DateQuestion then Inr (ExternalClass DateQuestion)
      else if t = ext_path Labelled then Inr (ExternalClass Labelled)
      else if CHR ''.'' \<notin> set t then Inl ValueError
      else (case List.find (\<lambda>c. dotted_path c = t) module_classes of
              None \<Rightarrow> Inl QuestionTypeRegisterError
            | Some c \<Rightarrow> Inr (ModuleClass c)))"

subsection \<open>Foreign keys to questions\<close>

text \<open>The model that the \<^verbatim>\<open>question\<close> foreign key of a class points at.\<close>

fun question_fk :: "pyclass \<Rightarrow> pyclass option" where
  "question_fk DynamicMultipleChoiceAnswer = Some DynamicMultipleChoiceQuestion"
| "question_fk DynamicRatingAnswer = Some DynamicRatingQuestion"
| "question_fk DynamicTextResponse = Some DynamicTextQuestion"
| "question_fk DynamicMultipleChoiceResponse = Some DynamicMultipleChoiceQuestion"
| "question_fk DynamicYesNoResponse = Some DynamicYesNoQuestion"
| "question_fk DynamicRatingResponse = Some DynamicRatingQuestion"
| "question_fk c = None"

subsection \<open>An example database\<close>

text \<open>
  One form with a question of each type, answers for the multiple-choice and the
  rating question, and one response set with no responses yet.
\<close>

definition example_db :: database where
  "example_db =
     \<lparr>t_dynamicform = [\<lparr>f_id = 1, f_name = ''Survey''\<rparr>],
      t_dynamicformquestion =
        [\<lparr>row_id = 1, row_real_type = Some (ContentType DynamicTextQuestion),
          row_question_text = ''Any comments?'',
          row_content_type = ContentType DynamicForm, row_object_id = 1, row_order = 1000\<rparr>,
         \<lparr>row_id = 2, row_real_type = Some (ContentType DynamicMultipleChoiceQuestion),
          row_question_text = ''Which colours do you like?'',
          row_content_type = ContentType DynamicForm, row_object_id = 1, row_order = 5\<rparr>,
         \<lparr>row_id = 3, row_real_type = Some (ContentType DynamicYesNoQuestion),
          row_question_text = ''Do you agree?'',
          row_content_type = ContentType DynamicForm, row_object_id = 1, row_order = 5\<rparr>,
         \<lparr>row_id = 4, row_real_type = Some (ContentType DynamicRatingQuestion),
          row_question_text = ''How was it?'',
          row_content_type = ContentType DynamicForm, row_object_id = 1, row_order = 1000\<rparr>],
      t_dynamictextquestion = [1],
      t_dynamicmultiplechoicequestion = [2, 3, 4],
      t_dynamicyesnoquestion = [3],
      t_dynamicratingquestion = [4],
      t_dynamicmultiplechoiceanswer =
        [\<lparr>a_id = 1, a_question = 2, a_answer_text = ''Red''\<rparr>,
         \<lparr>a_id = 2, a_question = 2, a_answer_text = ''Blue''\<rparr>],
      t_dynamicratinganswer = [\<lparr>a_id = 1, a_question = 4, a_answer_text = ''Good''\<rparr>],
      t_dynamicresponseset =
        [\<lparr>rs_id = 1, rs_user = 7, rs_dynamic_form = 1, rs_added = 100, rs_interviewer = None\<rparr>],
      t_dynamictextresponse = [],
      t_dynamicmultiplechoiceresponse = [],
      t_dynamicyesnoresponse = [],
      t_dynamicratingresponse = [],
      submitted_default = 50\<rparr>"

text \<open>
  A question built with a primary key of its own choosing, one built with the key 0
  and another class's tag, and one built without a key.
\<close>

definition preset_id_question :: question where
  "preset_id_question =
     \<lparr>q_class = DynamicTextQuestion, q_id = Some 9, q_real_type = None,
      q_question_text = ''Anything else?'', q_content_type = ContentType DynamicForm,
      q_object_id = 1, q_order = 1000\<rparr>"

definition zero_id_question :: question where
  "zero_id_question =
     \<lparr>q_class = DynamicRatingQuestion, q_id = Some 0,
      q_real_type = Some (ContentType DynamicFormQuestion),
      q_question_text = ''How likely?'', q_content_type = ContentType DynamicForm,
      q_object_id = 1, q_order = 7\<rparr>"

definition new_question :: question where
  "new_question =
     \<lparr>q_class = DynamicYesNoQuestion, q_id = None, q_real_type = None,
      q_question_text = ''Would you come again?'', q_content_type = ContentType DynamicForm,
      q_object_id = 1, q_order = 1000\<rparr>"

text \<open>
  The module as loaded with the importer above, two configured custom types (one that
  fails to import, one of another application) and the example database; and a run
  of calls made on it.
\<close>

definition example_registry :: "question_type list" where
  "example_registry =
     [\<lparr>qt_pretty_name = ''Text question'', qt_slug = ''dynamictextquestion'',
       qt_class = ModuleClass DynamicTextQuestion\<rparr>,
      \<lparr>qt_pretty_name = ''Yes/No question'', qt_slug = ''dynamicyesnoquestion'',
       qt_class = ModuleClass DynamicYesNoQuestion\<rparr>,
      \<lparr>qt_pretty_name = ''Multiple choice question'',
       qt_slug = ''dynamicmultiplechoicequestion'',
       qt_class = ModuleClass DynamicMultipleChoiceQuestion\<rparr>,
      \<lparr>qt_pretty_name = ''Rating question'', qt_slug = ''dynamicratingquestion'',
       qt_class = ModuleClass DynamicRatingQuestion\<rparr>,
      \<lparr>qt_pretty_name = ''Date question'', qt_slug = ''datequestion'',
       qt_class = ExternalClass DateQuestion\<rparr>]"

definition example_custom_types :: "string list" where
  "example_custom_types = [''no.such.module.Question'', ''surveys.models.DateQuestion'']"

definition example_module :: module_state where
  "example_module =
     \<lparr>QUESTION_TYPES = example_registry,
      CHOICES =
        [('''', ''------''),
         (''/admin/dynamicforms/dynamictextquestion/add/'', ''Text question''),
         (''/admin/dynamicforms/dynamicyesnoquestion/add/'', ''Yes/No question''),
         (''/admin/dynamicforms/dynamicmultiplechoicequestion/add/'',
          ''Multiple choice question''),
         (''/admin/dynamicforms/dynamicratingquestion/add/'', ''Rating question''),
         (''/admin/surveys/datequestion/add/'', ''Date question'')],
      admin_registry =
        [(ModuleClass DynamicTextQuestion, False), (ModuleClass DynamicYesNoQuestion, True),
         (ModuleClass DynamicMultipleChoiceQuestion, True),
         (ModuleClass DynamicRatingQuestion, True), (ExternalClass DateQuestion, False)],
      StackedInline_model = Some ''dynamicforms.models.DynamicMultipleChoiceAnswer'',
      stdout = [''Failed to register no.such.module.Question''],
      ms_db = example_db\<rparr>"

definition example_operations :: "operation list" where
  "example_operations =
     [Call_register_admin, Call_save new_question,
      Call_register_questions_types [[''no.such.module.Question'']],
      Call_save_response DynamicYesNoQuestion 7 3 (PyStr ''yes'') 1,
      Call_get_creation_choices]"

section \<open>Verified properties\<close>

subsection \<open>Lemmas on the pattern\<close>

lemma digit_char_is_digit: "d < 10 \<Longrightarrow> is_digit (digit_char d)"
  by (simp add: is_digit_def digit_char_def)

lemma digit_val_digit_char: "d < 10 \<Longrightarrow> digit_val (digit_char d) = d"
  by (simp add: digit_val_def digit_char_def)

lemma format_d_digits: "list_all is_digit (format_d n)"
proof (induction n rule: format_d.induct)
  case (1 n)
  show ?case
  proof (cases "n < 10")
    case True
    then show ?thesis by (subst format_d.simps) (simp add: digit_char_is_digit)
  next
    case False
    with 1 show ?thesis by (subst format_d.simps) (simp add: digit_char_is_digit)
  qed
qed

lemma format_d_nonempty: "format_d n \<noteq> []"
  by (subst format_d.simps) simp

lemma foldl_format_d:
  "foldl (\<lambda>acc c. 10 * acc + digit_val c) 0 (format_d n) = n"
proof (induction n rule: format_d.induct)
  case (1 n)
  show ?case
  proof (cases "n < 10")
    case True
    then show ?thesis by (subst format_d.simps) (simp add: digit_val_digit_char)
  next
    case False
    with 1 show ?thesis by (subst format_d.simps) (simp add: digit_val_digit_char)
  qed
qed

lemma py_int_format_d: "py_int (format_d n) = Inr n"
  by (simp add: py_int_def format_d_nonempty format_d_digits foldl_format_d)

lemma is_digit_not_lower: "is_digit c \<Longrightarrow> \<not> is_lower_or_hyphen c"
  by (auto simp: is_digit_def is_lower_or_hyphen_def)

lemma takeWhile_all: "list_all P xs \<Longrightarrow> takeWhile P xs = xs"
  by (induction xs) auto

lemma dropWhile_all: "list_all P xs \<Longrightarrow> dropWhile P xs = []"
  by (induction xs) auto

lemma match_tail_digits:
  assumes "ds \<noteq> []" "list_all is_digit ds"
  shows "match_tail (CHR ''-'' # ds) = Some ds"
proof -
  have t: "takeWhile is_digit ds = ds" using assms(2) by (rule takeWhile_all)
  have b: "\<forall>c\<in>set ds. is_digit c" using assms(2) by (simp add: list_all_iff)
  show ?thesis using assms(1) b by (simp add: match_tail_def t)
qed

lemma match_tail_digit_first:
  assumes "ds \<noteq> []" "list_all is_digit ds"
  shows "match_tail ds = None"
proof -
  from assms obtain d t where ds: "ds = d # t" and d: "is_digit d" by (cases ds) auto
  have "d \<noteq> CHR ''-''" using d by (auto simp: is_digit_def)
  then show ?thesis unfolding match_tail_def ds by simp
qed

lemma prefix_lower_or_hyphen:
  "list_all is_lower_or_hyphen ''dynamic-multiple-choice-answer-''"
  by (simp add: is_lower_or_hyphen_def)

lemma takeWhile_append_all:
  "list_all P xs \<Longrightarrow> takeWhile P (xs @ ys) = xs @ takeWhile P ys"
  by (induction xs) auto

lemma takeWhile_prefix_digits:
  assumes "ds \<noteq> []" "list_all is_digit ds"
  shows "takeWhile is_lower_or_hyphen (''dynamic-multiple-choice-answer-'' @ ds) =
         ''dynamic-multiple-choice-answer-''"
proof -
  from assms obtain d t where ds: "ds = d # t" and d: "is_digit d" by (cases ds) auto
  have nd: "\<not> is_lower_or_hyphen d" using d by (rule is_digit_not_lower)
  have "takeWhile is_lower_or_hyphen (''dynamic-multiple-choice-answer-'' @ ds) =
        ''dynamic-multiple-choice-answer-'' @ takeWhile is_lower_or_hyphen ds"
    using prefix_lower_or_hyphen by (rule takeWhile_append_all)
  also have "takeWhile is_lower_or_hyphen ds = []" unfolding ds using nd by simp
  finally show ?thesis by simp
qed

lemma backtrack_numeral:
  "backtrack (numeral n) s =
     (case match_tail (drop (numeral n) s) of
        Some d \<Rightarrow> Some (take (numeral n) s, d)
      | None \<Rightarrow> backtrack (pred_numeral n) s)"
  by (simp only: numeral_eq_Suc backtrack.simps)

lemma backtrack_prefix_digits:
  assumes "ds \<noteq> []" "list_all is_digit ds"
  shows "backtrack (Suc (Suc 29)) (''dynamic-multiple-choice-answer-'' @ ds) =
         Some (''dynamic-multiple-choice-answer'', ds)"
  by (simp add: backtrack_numeral match_tail_digits [OF assms] match_tail_digit_first [OF assms])

lemma findall_prefix_digits:
  assumes "ds \<noteq> []" "list_all is_digit ds"
  shows "PATTERN_findall (''dynamic-multiple-choice-answer-'' @ ds) =
         [(''dynamic-multiple-choice-answer'', ds)]"
proof -
  have l: "length (takeWhile is_lower_or_hyphen (''dynamic-multiple-choice-answer-'' @ ds)) =
           Suc (Suc 29)"
    unfolding takeWhile_prefix_digits [OF assms] by simp
  show ?thesis
    unfolding PATTERN_findall_def l backtrack_prefix_digits [OF assms] by simp
qed

lemma findall_choice_name:
  "PATTERN_findall (choice_name n) = [(''dynamic-multiple-choice-answer'', format_d n)]"
  unfolding choice_name_def by (rule findall_prefix_digits [OF format_d_nonempty format_d_digits])

subsection \<open>Saving no choices writes nothing\<close>

lemma defining_save_response_mc:
  "defining_class DynamicMultipleChoiceQuestion ''save_response'' = Some DynamicMultipleChoiceQuestion"
  by (simp add: defining_class_def)

text \<open>
  C10. \<^verbatim>\<open>DynamicMultipleChoiceQuestion.save_response\<close> called with an empty or otherwise
  falsy collection (\<^verbatim>\<open>None\<close>, an empty list, an empty string) leaves the database
  as it was, whatever the user, the question id and the response set: no response
  row is created.
\<close>

theorem empty_responses_create_nothing:
  assumes "\<not> truthy chosen"
  shows "snd (save_response db DynamicMultipleChoiceQuestion user question_id chosen
                response_set) = db"
  using assms
  by (simp add: save_response_def defining_save_response_mc
      DynamicMultipleChoiceQuestion_save_response_def split: sum.split)

theorem empty_responses_create_nothing_witness:
  "\<not> truthy (PyList []) \<and> \<not> truthy PyNone \<and>
   snd (save_response example_db DynamicMultipleChoiceQuestion 7 2 (PyList []) 1) = example_db \<and>
   snd (save_response example_db DynamicMultipleChoiceQuestion 7 2 PyNone 1) = example_db \<and>
   responses (snd (save_response example_db DynamicMultipleChoiceQuestion 7 2 (PyList []) 1))
     (hd (t_dynamicresponseset example_db)) = []"
  using empty_responses_create_nothing [of "PyList []" example_db 7 2 1]
    empty_responses_create_nothing [of PyNone example_db 7 2 1]
  by (simp add: responses_def example_db_def)

subsection \<open>Yes/No answers\<close>

lemma defining_save_response_yesno:
  "defining_class DynamicYesNoQuestion ''save_response'' = Some DynamicYesNoQuestion"
  by (simp add: defining_class_def)

text \<open>
  C8. For a yes/no question that exists, \<^verbatim>\<open>DynamicYesNoQuestion.save_response\<close>
  raises nothing and appends exactly one row to the yes/no responses, whose
  \<^verbatim>\<open>response\<close> field is \<^verbatim>\<open>True\<close> if and only if the argument is the string
  \<^verbatim>\<open>'yes'\<close>; every other value is stored as \<^verbatim>\<open>False\<close>.
\<close>

theorem yes_no_stores_true_only_for_yes:
  assumes "get_question db DynamicYesNoQuestion question_id = Inr q"
  shows "save_response db DynamicYesNoQuestion user question_id response response_set =
           (Inr (),
            db\<lparr>t_dynamicyesnoresponse := t_dynamicyesnoresponse db @
                 [\<lparr>yr_id = next_id (map yr_id (t_dynamicyesnoresponse db)),
                   yr_user = user,
                   yr_submitted = submitted_default db,
                   yr_dynamic_response_set = response_set,
                   yr_question = question_id,
                   yr_response = (response = PyStr ''yes'')\<rparr>]\<rparr>)"
  using assms
  by (simp add: save_response_def defining_save_response_yesno
      DynamicYesNoQuestion_save_response_def)

lemma get_question_example_yesno:
  "get_question example_db DynamicYesNoQuestion 3 =
     Inr (instance_of DynamicYesNoQuestion (t_dynamicformquestion example_db ! 2))"
  by (simp add: get_question_def get_by_def example_db_def link_tables_def has_link_table_def)

theorem yes_no_stores_true_only_for_yes_witness:
  "get_question example_db DynamicYesNoQuestion 3 =
     Inr (instance_of DynamicYesNoQuestion (t_dynamicformquestion example_db ! 2)) \<and>
   map (\<lambda>v. map yr_response (t_dynamicyesnoresponse
               (snd (save_response example_db DynamicYesNoQuestion 7 3 v 1))))
     [PyStr ''yes'', PyStr ''Yes'', PyStr ''no'', PyStr '''', PyNone, PyList [''yes'']] =
   [[True], [False], [False], [False], [False], [False]] \<and>
   map (\<lambda>v. fst (save_response example_db DynamicYesNoQuestion 7 3 v 1))
     [PyStr ''yes'', PyStr ''Yes'', PyStr ''no'', PyStr '''', PyNone, PyList [''yes'']] =
   [Inr (), Inr (), Inr (), Inr (), Inr (), Inr ()]"
proof -
  have e: "t_dynamicyesnoresponse example_db = []" by (simp add: example_db_def)
  show ?thesis
    by (simp add: yes_no_stores_true_only_for_yes [OF get_question_example_yesno]
        get_question_example_yesno e)
qed

subsection \<open>The type tag\<close>

lemma next_id_fresh: "x \<in> set ids \<Longrightarrow> x < next_id ids"
  by (induction ids) (auto simp: next_id_def)

lemma filter_fresh:
  "filter (\<lambda>r. Q r \<and> row_id r = next_id (map row_id tbl)) tbl = []"
proof -
  have "row_id r \<noteq> next_id (map row_id tbl)" if "r \<in> set tbl" for r
    using next_id_fresh [of "row_id r" "map row_id tbl"] that by auto
  then show ?thesis by (auto simp: filter_empty_conv)
qed

lemma upsert_fresh:
  "row_id r = next_id (map row_id tbl) \<Longrightarrow> upsert_row r tbl = tbl @ [r]"
  using next_id_fresh [of "row_id r" "map row_id tbl"] by (auto simp: upsert_row_def)

lemma link_row_base [simp]:
  "t_dynamicformquestion (link_row n d db) = t_dynamicformquestion db"
  by (cases d) simp_all

lemma foldr_link_row_base [simp]:
  "t_dynamicformquestion (foldr (link_row n) ds db) = t_dynamicformquestion db"
  by (induction ds) simp_all

lemma link_row_adds: "has_link_table d \<Longrightarrow> n \<in> set (ptrs (link_row n d db) d)"
  by (cases d) (simp_all add: has_link_table_def insert_ptr_def)

lemma link_row_keeps: "n \<in> set (ptrs db e) \<Longrightarrow> n \<in> set (ptrs (link_row m d db) e)"
  by (cases d; cases e) (simp_all add: insert_ptr_def)

lemma foldr_link_row_adds:
  "d \<in> set ds \<Longrightarrow> has_link_table d \<Longrightarrow> n \<in> set (ptrs (foldr (link_row n) ds db) d)"
proof (induction ds)
  case Nil
  then show ?case by simp
next
  case (Cons e ds)
  show ?case
  proof (cases "d = e")
    case True
    with Cons.prems show ?thesis by (simp add: link_row_adds)
  next
    case False
    with Cons show ?thesis by (simp add: link_row_keeps)
  qed
qed

lemma linked_all:
  "list_all (\<lambda>d. n \<in> set (ptrs (foldr (link_row n) (link_tables c) db) d)) (link_tables c)"
  by (auto simp: list_all_iff link_tables_def intro!: foldr_link_row_adds)

lemma link_tables_parent: "link_tables DynamicFormQuestion = []"
  by (simp add: link_tables_def has_link_table_def)

lemma filter_upsert_fresh:
  assumes "row_id r = next_id (map row_id tbl)"
  shows "filter (\<lambda>x. row_id x = row_id r) (upsert_row r tbl) = [r]"
  using filter_fresh [of "\<lambda>x. True" tbl] assms by (simp add: upsert_fresh)

lemma filter_absent:
  assumes "row_id r \<notin> set (map row_id tbl)"
  shows "filter (\<lambda>x. row_id x = row_id r) tbl = []"
proof -
  have "row_id x \<noteq> row_id r" if "x \<in> set tbl" for x
  proof
    assume "row_id x = row_id r"
    moreover from that have "row_id x \<in> set (map row_id tbl)" by simp
    ultimately show False using assms by simp
  qed
  then show ?thesis by (simp add: filter_empty_conv)
qed

lemma filter_upsert_distinct:
  assumes "distinct (map row_id tbl)"
  shows "filter (\<lambda>x. row_id x = row_id r) (upsert_row r tbl) = [r]"
proof (cases "row_id r \<in> set (map row_id tbl)")
  case False
  then have "filter (\<lambda>x. row_id x = row_id r) tbl = []"
    by (rule filter_absent)
  with False show ?thesis by (simp add: upsert_row_def)
next
  case True
  have "filter (\<lambda>x. row_id x = row_id r) (map (\<lambda>x. if row_id x = row_id r then r else x) tbl) = [r]"
    using assms True
  proof (induction tbl)
    case Nil
    then show ?case by simp
  next
    case (Cons a tbl)
    show ?case
    proof (cases "row_id a = row_id r")
      case True
      with Cons.prems(1) have "row_id r \<notin> set (map row_id tbl)" by auto
      then have "filter (\<lambda>x. row_id x = row_id r) tbl = []"
        by (rule filter_absent)
      then have "filter (\<lambda>x. row_id x = row_id r)
                   (map (\<lambda>x. if row_id x = row_id r then r else x) tbl) = []"
        by (simp add: filter_empty_conv)
      with True show ?thesis by simp
    next
      case False
      with Cons show ?thesis by auto
    qed
  qed
  with True show ?thesis by (simp add: upsert_row_def)
qed

lemma get_by_unique:
  assumes "filter (\<lambda>x. row_id x = n) tbl = [r]" "Q r"
  shows "get_by row_id n (filter Q tbl) = Inr r"
proof -
  have "filter (\<lambda>x. row_id x = n) (filter Q tbl) = filter Q (filter (\<lambda>x. row_id x = n) tbl)"
    by (simp add: conj_commute)
  with assms show ?thesis by (simp add: get_by_def del: filter_filter)
qed

lemma save_untagged:
  assumes "q_id q = None \<or> q_id q = Some 0"
  shows "\<exists>n. (q_id q = None \<longrightarrow> n = next_id (map row_id (t_dynamicformquestion db))) \<and>
           (q_id q = Some 0 \<longrightarrow> n = 0) \<and>
           save db q =
             (q\<lparr>q_real_type := Some (ContentType (q_class q)), q_id := Some n\<rparr>,
              foldr (link_row n) (link_tables (q_class q))
                (db\<lparr>t_dynamicformquestion :=
                      upsert_row (row_of n (q\<lparr>q_real_type := Some (ContentType (q_class q))\<rparr>))
                        (t_dynamicformquestion db)\<rparr>))"
  using assms
  by (auto simp: save_def Model_save_def Let_def get_real_type_def row_of_def)

lemma resolves_after_save:
  assumes cls: "q_class q \<in> set question_classes"
    and one: "filter (\<lambda>x. row_id x = n)
                (upsert_row (row_of n (q\<lparr>q_real_type := Some (ContentType (q_class q))\<rparr>))
                   (t_dynamicformquestion db)) =
              [row_of n (q\<lparr>q_real_type := Some (ContentType (q_class q))\<rparr>)]"
    and db': "db' = foldr (link_row n) (link_tables (q_class q))
                (db\<lparr>t_dynamicformquestion :=
                      upsert_row (row_of n (q\<lparr>q_real_type := Some (ContentType (q_class q))\<rparr>))
                        (t_dynamicformquestion db)\<rparr>)"
    and row: "row = row_of n (q\<lparr>q_real_type := Some (ContentType (q_class q))\<rparr>)"
  shows "get_question db' DynamicFormQuestion n = Inr (instance_of DynamicFormQuestion row)"
    and "resolve db' (instance_of DynamicFormQuestion row) =
           Inr (QuestionObj (q\<lparr>q_real_type := Some (ContentType (q_class q)), q_id := Some n\<rparr>))"
proof -
  have id: "row_id row = n" by (simp add: row row_of_def)
  have base: "t_dynamicformquestion db' = upsert_row row (t_dynamicformquestion db)"
    by (simp add: db' row)
  have one': "filter (\<lambda>x. row_id x = n) (upsert_row row (t_dynamicformquestion db)) = [row]"
    using one by (simp only: row)
  show parent: "get_question db' DynamicFormQuestion n = Inr (instance_of DynamicFormQuestion row)"
    unfolding get_question_def base link_tables_parent
    using get_by_unique [OF one', of "\<lambda>r. True"] by simp
  have linked: "list_all (\<lambda>d. n \<in> set (ptrs db' d)) (link_tables (q_class q))"
    unfolding db' by (rule linked_all)
  have child: "get_question db' (q_class q) n = Inr (instance_of (q_class q) row)"
    unfolding get_question_def base
    using get_by_unique [OF one',
        of "\<lambda>r. list_all (\<lambda>d. row_id r \<in> set (ptrs db' d)) (link_tables (q_class q))"]
      linked
    by (simp only: id simp_thms sum.case)
  have inst: "instance_of (q_class q) row =
              q\<lparr>q_real_type := Some (ContentType (q_class q)), q_id := Some n\<rparr>"
    by (simp add: instance_of_def row row_of_def)
  have na: "\<not> abstract (q_class q)"
    using cls by (auto simp: question_classes_def abstract_def)
  have rt: "q_real_type (instance_of DynamicFormQuestion row) = Some (ContentType (q_class q))"
    by (simp add: instance_of_def row row_of_def)
  have pid: "q_id (instance_of DynamicFormQuestion row) = Some n"
    by (simp add: instance_of_def row row_of_def)
  have og: "objects_get db' (q_class q) n =
            Inr (QuestionObj (q\<lparr>q_real_type := Some (ContentType (q_class q)), q_id := Some n\<rparr>))"
    using cls na by (simp add: objects_get_def child inst)
  show "resolve db' (instance_of DynamicFormQuestion row) =
           Inr (QuestionObj (q\<lparr>q_real_type := Some (ContentType (q_class q)), q_id := Some n\<rparr>))"
    unfolding resolve_def rt pid using na by (simp add: get_object_for_this_type_def og)
qed

lemma save_keeps_tag:
  "q_id q = Some k \<and> k \<noteq> 0 \<Longrightarrow> q_real_type (fst (save db q)) = q_real_type q"
  by (simp add: save_def Model_save_def Let_def)

lemma responses_untagged:
  "list_all (\<lambda>R. \<not> issubclass R InheritanceResolveModel \<and> \<not> hasattr R ''real_type'' \<and>
                  \<not> hasattr R ''resolve'') response_classes"
  by (simp add: response_classes_def issubclass_def hasattr_def defining_class_def)

lemma save_untagged_resolves:
  assumes a: "q_class q \<in> set question_classes \<and>
    (q_id q = None \<or> q_id q = Some 0 \<and> distinct (map row_id (t_dynamicformquestion db)))"
  shows "(\<exists>n p. fst (save db q) =
               q\<lparr>q_real_type := Some (ContentType (q_class q)), q_id := Some n\<rparr> \<and>
             get_question (snd (save db q)) DynamicFormQuestion n = Inr p \<and>
             q_class p = DynamicFormQuestion \<and> q_id p = Some n \<and>
             q_real_type p = Some (ContentType (q_class q)) \<and>
             resolve (snd (save db q)) p = Inr (QuestionObj (fst (save db q))))"
proof -
  from a have cls: "q_class q \<in> set question_classes" by (rule conjunct1)
  from a have ids: "q_id q = None \<or> q_id q = Some 0" by blast
  from save_untagged [OF ids, of db] obtain n where
    n_new: "q_id q = None \<longrightarrow> n = next_id (map row_id (t_dynamicformquestion db))"
    and s: "save db q =
       (q\<lparr>q_real_type := Some (ContentType (q_class q)), q_id := Some n\<rparr>,
        foldr (link_row n) (link_tables (q_class q))
          (db\<lparr>t_dynamicformquestion :=
                upsert_row (row_of n (q\<lparr>q_real_type := Some (ContentType (q_class q))\<rparr>))
                  (t_dynamicformquestion db)\<rparr>))"
    by (elim exE conjE)
  define row where "row = row_of n (q\<lparr>q_real_type := Some (ContentType (q_class q))\<rparr>)"
  define db' where "db' = foldr (link_row n) (link_tables (q_class q))
          (db\<lparr>t_dynamicformquestion :=
                upsert_row (row_of n (q\<lparr>q_real_type := Some (ContentType (q_class q))\<rparr>))
                  (t_dynamicformquestion db)\<rparr>)"
  have id: "row_id row = n" by (simp add: row_def row_of_def)
  have "filter (\<lambda>x. row_id x = row_id row) (upsert_row row (t_dynamicformquestion db)) = [row]"
  proof (cases "q_id q")
    case None
    with n_new have "n = next_id (map row_id (t_dynamicformquestion db))" by (rule mp)
    with id have "row_id row = next_id (map row_id (t_dynamicformquestion db))" by (rule trans)
    then show ?thesis by (rule filter_upsert_fresh)
  next
    case (Some j)
    with a have "distinct (map row_id (t_dynamicformquestion db))" by simp
    then show ?thesis by (rule filter_upsert_distinct)
  qed
  then have one: "filter (\<lambda>x. row_id x = n)
                (upsert_row (row_of n (q\<lparr>q_real_type := Some (ContentType (q_class q))\<rparr>))
                   (t_dynamicformquestion db)) =
              [row_of n (q\<lparr>q_real_type := Some (ContentType (q_class q))\<rparr>)]"
    unfolding id unfolding row_def .
  note r = resolves_after_save [OF cls one db'_def row_def]
  have sv: "save db q =
       (q\<lparr>q_real_type := Some (ContentType (q_class q)), q_id := Some n\<rparr>, db')"
    unfolding db'_def by (rule s)
  have p1: "q_class (instance_of DynamicFormQuestion row) = DynamicFormQuestion"
    by (simp add: instance_of_def)
  have p2: "q_id (instance_of DynamicFormQuestion row) = Some n"
    by (simp add: instance_of_def id)
  have p3: "q_real_type (instance_of DynamicFormQuestion row) = Some (ContentType (q_class q))"
    by (simp add: instance_of_def row_def row_of_def)
  show ?thesis
    unfolding sv fst_conv snd_conv
    by (intro exI [of _ n] exI [of _ "instance_of DynamicFormQuestion row"] conjI refl r p1 p2 p3)
qed

text \<open>
  C1, as amended. A question of any question class that is saved while
  \<^verbatim>\<open>not self.id\<close> holds (its id is \<^verbatim>\<open>None\<close>, or it is 0 and the primary keys of the
  question table are unique) gets the content type of its concrete class as
  \<^verbatim>\<open>real_type\<close>; the row of the parent table under the instance's key carries that
  tag, and \<^verbatim>\<open>resolve()\<close> on the parent-typed instance returns the saved instance: the
  concrete class, the same key. A question saved with any other id keeps the
  \<^verbatim>\<open>real_type\<close> it was given. None of the four response classes derives from
  \<^verbatim>\<open>InheritanceResolveModel\<close>, has a \<^verbatim>\<open>real_type\<close> or has a \<^verbatim>\<open>resolve\<close>.
\<close>

theorem saved_question_resolves:
  "(q_class q \<in> set question_classes \<and>
    (q_id q = None \<or>
     q_id q = Some 0 \<and> distinct (map row_id (t_dynamicformquestion db))) \<longrightarrow>
      (\<exists>n p. fst (save db q) =
               q\<lparr>q_real_type := Some (ContentType (q_class q)), q_id := Some n\<rparr> \<and>
             get_question (snd (save db q)) DynamicFormQuestion n = Inr p \<and>
             q_class p = DynamicFormQuestion \<and> q_id p = Some n \<and>
             q_real_type p = Some (ContentType (q_class q)) \<and>
             resolve (snd (save db q)) p = Inr (QuestionObj (fst (save db q))))) \<and>
   (q_id q = Some k \<and> k \<noteq> 0 \<longrightarrow> q_real_type (fst (save db q)) = q_real_type q) \<and>
   list_all (\<lambda>R. \<not> issubclass R InheritanceResolveModel \<and> \<not> hasattr R ''real_type'' \<and>
                  \<not> hasattr R ''resolve'') response_classes"
proof (intro conjI impI)
  assume "q_class q \<in> set question_classes \<and>
    (q_id q = None \<or> q_id q = Some 0 \<and> distinct (map row_id (t_dynamicformquestion db)))"
  then show "\<exists>n p. fst (save db q) =
               q\<lparr>q_real_type := Some (ContentType (q_class q)), q_id := Some n\<rparr> \<and>
             get_question (snd (save db q)) DynamicFormQuestion n = Inr p \<and>
             q_class p = DynamicFormQuestion \<and> q_id p = Some n \<and>
             q_real_type p = Some (ContentType (q_class q)) \<and>
             resolve (snd (save db q)) p = Inr (QuestionObj (fst (save db q)))"
    by (rule save_untagged_resolves)
next
  assume "q_id q = Some k \<and> k \<noteq> 0"
  then show "q_real_type (fst (save db q)) = q_real_type q" by (rule save_keeps_tag)
next
  show "list_all (\<lambda>R. \<not> issubclass R InheritanceResolveModel \<and> \<not> hasattr R ''real_type'' \<and>
                  \<not> hasattr R ''resolve'') response_classes"
    by (rule responses_untagged)
qed

theorem saved_question_resolves_witness:
  "q_class new_question \<in> set question_classes \<and> q_id new_question = None \<and>
   fst (save example_db new_question) =
     new_question\<lparr>q_real_type := Some (ContentType DynamicYesNoQuestion), q_id := Some 5\<rparr> \<and>
   get_question (snd (save example_db new_question)) DynamicFormQuestion 5 =
     Inr (new_question\<lparr>q_class := DynamicFormQuestion,
            q_real_type := Some (ContentType DynamicYesNoQuestion), q_id := Some 5\<rparr>) \<and>
   resolve (snd (save example_db new_question))
     (new_question\<lparr>q_class := DynamicFormQuestion,
        q_real_type := Some (ContentType DynamicYesNoQuestion), q_id := Some 5\<rparr>) =
     Inr (QuestionObj (fst (save example_db new_question))) \<and>
   q_class zero_id_question \<in> set question_classes \<and> q_id zero_id_question = Some 0 \<and>
   distinct (map row_id (t_dynamicformquestion example_db)) \<and>
   q_real_type zero_id_question = Some (ContentType DynamicFormQuestion) \<and>
   fst (save example_db zero_id_question) =
     zero_id_question\<lparr>q_real_type := Some (ContentType DynamicRatingQuestion)\<rparr> \<and>
   get_question (snd (save example_db zero_id_question)) DynamicFormQuestion 0 =
     Inr (zero_id_question\<lparr>q_class := DynamicFormQuestion,
            q_real_type := Some (ContentType DynamicRatingQuestion)\<rparr>) \<and>
   resolve (snd (save example_db zero_id_question))
     (zero_id_question\<lparr>q_class := DynamicFormQuestion,
        q_real_type := Some (ContentType DynamicRatingQuestion)\<rparr>) =
     Inr (QuestionObj (fst (save example_db zero_id_question))) \<and>
   q_id preset_id_question = Some 9 \<and> (9::nat) \<noteq> 0 \<and>
   q_real_type (fst (save example_db preset_id_question)) = q_real_type preset_id_question"
proof -
  have h1: "q_class new_question \<in> set question_classes"
    by (simp add: new_question_def question_classes_def)
  have h2: "q_id new_question = None" by (simp add: new_question_def)
  have f: "fst (save example_db new_question) =
     new_question\<lparr>q_real_type := Some (ContentType DynamicYesNoQuestion), q_id := Some 5\<rparr>"
    by code_simp
  have g: "get_question (snd (save example_db new_question)) DynamicFormQuestion 5 =
     Inr (new_question\<lparr>q_class := DynamicFormQuestion,
            q_real_type := Some (ContentType DynamicYesNoQuestion), q_id := Some 5\<rparr>)"
    by code_simp
  from saved_question_resolves [of new_question example_db 0] h1 h2 obtain n p where
    n: "fst (save example_db new_question) =
          new_question\<lparr>q_real_type := Some (ContentType (q_class new_question)), q_id := Some n\<rparr>"
    and p: "get_question (snd (save example_db new_question)) DynamicFormQuestion n = Inr p"
    and r: "resolve (snd (save example_db new_question)) p =
          Inr (QuestionObj (fst (save example_db new_question)))"
    by blast
  from n f have "n = 5" by (simp add: new_question_def)
  with p g r have new: "resolve (snd (save example_db new_question))
     (new_question\<lparr>q_class := DynamicFormQuestion,
        q_real_type := Some (ContentType DynamicYesNoQuestion), q_id := Some 5\<rparr>) =
     Inr (QuestionObj (fst (save example_db new_question)))"
    by simp
  have z1: "q_class zero_id_question \<in> set question_classes"
    by (simp add: zero_id_question_def question_classes_def)
  have z2: "q_id zero_id_question = Some 0" by (simp add: zero_id_question_def)
  have z3: "distinct (map row_id (t_dynamicformquestion example_db))"
    by (simp add: example_db_def)
  have z4: "q_real_type zero_id_question = Some (ContentType DynamicFormQuestion)"
    by (simp add: zero_id_question_def)
  have zf: "fst (save example_db zero_id_question) =
     zero_id_question\<lparr>q_real_type := Some (ContentType DynamicRatingQuestion)\<rparr>"
    by code_simp
  have zg: "get_question (snd (save example_db zero_id_question)) DynamicFormQuestion 0 =
     Inr (zero_id_question\<lparr>q_class := DynamicFormQuestion,
            q_real_type := Some (ContentType DynamicRatingQuestion)\<rparr>)"
    by code_simp
  from saved_question_resolves [of zero_id_question example_db 0] z1 z2 z3 obtain m u where
    m: "fst (save example_db zero_id_question) =
          zero_id_question\<lparr>q_real_type := Some (ContentType (q_class zero_id_question)),
            q_id := Some m\<rparr>"
    and u: "get_question (snd (save example_db zero_id_question)) DynamicFormQuestion m = Inr u"
    and v: "resolve (snd (save example_db zero_id_question)) u =
          Inr (QuestionObj (fst (save example_db zero_id_question)))"
    by blast
  from m zf have "m = 0" by (simp add: zero_id_question_def)
  with u zg v have zero: "resolve (snd (save example_db zero_id_question))
     (zero_id_question\<lparr>q_class := DynamicFormQuestion,
        q_real_type := Some (ContentType DynamicRatingQuestion)\<rparr>) =
     Inr (QuestionObj (fst (save example_db zero_id_question)))"
    by simp
  have k1: "q_id preset_id_question = Some 9" by (simp add: preset_id_question_def)
  from saved_question_resolves [of preset_id_question example_db 9] k1
  have kept: "q_real_type (fst (save example_db preset_id_question)) =
              q_real_type preset_id_question"
    by simp
  from h1 h2 f g new z1 z2 z3 z4 zf zg zero k1 kept show ?thesis by simp
qed

text \<open>
  C1 as stated fails twice. Response classes derive from \<^verbatim>\<open>DynamicResponse\<close>, which
  is not an \<^verbatim>\<open>InheritanceResolveModel\<close>: they have no \<^verbatim>\<open>real_type\<close> and no
  \<^verbatim>\<open>resolve\<close>. And \<^verbatim>\<open>save\<close> sets the tag only under \<^verbatim>\<open>not self.id\<close>: a text
  question saved with the key 9 and no tag is stored without one, and \<^verbatim>\<open>resolve()\<close> on
  its parent row raises.
\<close>

theorem type_tag_counterexample:
  "\<not> issubclass DynamicTextResponse InheritanceResolveModel \<and>
   \<not> hasattr DynamicTextResponse ''real_type'' \<and>
   \<not> hasattr DynamicTextResponse ''resolve'' \<and>
   \<not> hasattr DynamicMultipleChoiceResponse ''real_type'' \<and>
   \<not> hasattr DynamicMultipleChoiceResponse ''resolve'' \<and>
   \<not> hasattr DynamicYesNoResponse ''real_type'' \<and>
   \<not> hasattr DynamicYesNoResponse ''resolve'' \<and>
   \<not> hasattr DynamicRatingResponse ''real_type'' \<and>
   \<not> hasattr DynamicRatingResponse ''resolve'' \<and>
   q_real_type (fst (save example_db preset_id_question)) = None \<and>
   get_question (snd (save example_db preset_id_question)) DynamicFormQuestion 9 =
     Inr (preset_id_question\<lparr>q_class := DynamicFormQuestion\<rparr>) \<and>
   resolve (snd (save example_db preset_id_question))
     (preset_id_question\<lparr>q_class := DynamicFormQuestion\<rparr>) =
     Inl (AttributeError
            ''Failed to access real type for Anything else?... with self.real_type=None'')"
  by code_simp

subsection \<open>Resolving without a type tag\<close>

text \<open>
  C4. With \<^verbatim>\<open>real_type = None\<close>, \<^verbatim>\<open>resolve()\<close> raises the AttributeError whose
  message names the instance (its text, cut at 20 characters) and the missing tag.
  With the content type of a class of the module as tag and a row of that class under
  the instance's key, \<^verbatim>\<open>resolve()\<close> raises nothing and returns that object.
\<close>

theorem resolve_missing_type_tag:
  "(q_real_type self = None \<longrightarrow>
      resolve db self =
        Inl (AttributeError
               (''Failed to access real type for '' @ take 20 (q_question_text self) @
                ''... with self.real_type=None''))) \<and>
   (q_real_type self = Some (ContentType c) \<and> q_id self = Some n \<and>
    objects_get db c n = Inr obj \<longrightarrow> resolve db self = Inr obj)"
proof (intro conjI impI)
  assume "q_real_type self = None"
  then show "resolve db self =
        Inl (AttributeError
               (''Failed to access real type for '' @ take 20 (q_question_text self) @
                ''... with self.real_type=None''))"
    by (simp add: resolve_def resolve_message_def question_unicode_def)
next
  assume a: "q_real_type self = Some (ContentType c) \<and> q_id self = Some n \<and>
    objects_get db c n = Inr obj"
  then have "\<not> abstract c" by (auto simp: objects_get_def)
  with a show "resolve db self = Inr obj"
    by (simp add: resolve_def get_object_for_this_type_def)
qed

lemma objects_get_example_yesno:
  "objects_get example_db DynamicYesNoQuestion 3 =
     Inr (QuestionObj (instance_of DynamicYesNoQuestion (t_dynamicformquestion example_db ! 2)))"
  by (simp add: objects_get_def abstract_def question_classes_def get_question_example_yesno)

theorem resolve_missing_type_tag_witness:
  "resolve example_db
     \<lparr>q_class = DynamicFormQuestion, q_id = Some 3, q_real_type = None,
      q_question_text = ''Do you agree with the statement?'',
      q_content_type = ContentType DynamicForm, q_object_id = 1, q_order = 5\<rparr> =
     Inl (AttributeError
            ''Failed to access real type for Do you agree with th... with self.real_type=None'') \<and>
   resolve example_db
     \<lparr>q_class = DynamicFormQuestion, q_id = Some 3,
      q_real_type = Some (ContentType DynamicYesNoQuestion),
      q_question_text = ''Do you agree?'',
      q_content_type = ContentType DynamicForm, q_object_id = 1, q_order = 5\<rparr> =
     Inr (QuestionObj (instance_of DynamicYesNoQuestion (t_dynamicformquestion example_db ! 2)))"
  using resolve_missing_type_tag
    [of "\<lparr>q_class = DynamicFormQuestion, q_id = Some 3, q_real_type = None,
      q_question_text = ''Do you agree with the statement?'',
      q_content_type = ContentType DynamicForm, q_object_id = 1, q_order = 5\<rparr>" example_db]
    resolve_missing_type_tag
    [of "\<lparr>q_class = DynamicFormQuestion, q_id = Some 3,
      q_real_type = Some (ContentType DynamicYesNoQuestion),
      q_question_text = ''Do you agree?'',
      q_content_type = ContentType DynamicForm, q_object_id = 1, q_order = 5\<rparr>" example_db
      DynamicYesNoQuestion 3
      "QuestionObj (instance_of DynamicYesNoQuestion (t_dynamicformquestion example_db ! 2))"]
  by (simp add: objects_get_example_yesno)

subsection \<open>Order of questions\<close>

text \<open>
  C5. The questions of a form come as the rows whose generic key names the form, each
  once, sorted by \<^verbatim>\<open>order\<close> ascending and, among equal \<^verbatim>\<open>order\<close>, by \<^verbatim>\<open>id\<close>
  ascending, whatever the values of \<^verbatim>\<open>order\<close>.
\<close>

theorem questions_in_order:
  "\<exists>rows. questions db self = map (instance_of DynamicFormQuestion) rows \<and>
     mset rows =
       mset (filter (\<lambda>r. row_content_type r = ContentType DynamicForm \<and>
                          row_object_id r = f_id self)
               (t_dynamicformquestion db)) \<and>
     sorted_wrt (\<lambda>a b. row_order a < row_order b \<or>
                        (row_order a = row_order b \<and> row_id a \<le> row_id b)) rows"
proof -
  let ?rows = "sort_key Meta_ordering
          (filter (\<lambda>r. row_content_type r = ContentType DynamicForm \<and>
                        row_object_id r = f_id self)
             (t_dynamicformquestion db))"
  have "sorted (map Meta_ordering ?rows)" by (rule sorted_sort_key)
  then have "sorted_wrt (\<lambda>a b. Meta_ordering a \<le> Meta_ordering b) ?rows"
    by (simp add: sorted_map)
  then have "sorted_wrt (\<lambda>a b. row_order a < row_order b \<or>
                        (row_order a = row_order b \<and> row_id a \<le> row_id b)) ?rows"
    by (rule sorted_wrt_mono_rel [rotated]) (auto simp: Meta_ordering_def less_eq_prod_def)
  then show ?thesis
    by (intro exI [of _ ?rows]) (simp add: questions_def)
qed

subsection \<open>Response tables\<close>

text \<open>
  C6. Each of the four question types is the target of the \<^verbatim>\<open>question\<close> key of
  exactly one response class; every response class is concrete and has the fields
  \<^verbatim>\<open>dynamic_response_set\<close> and \<^verbatim>\<open>question\<close>; and the \<^verbatim>\<open>responses\<close> of a response set
  are the multiple-choice, text, rating and yes/no response rows that point at it.
\<close>

theorem one_response_table_per_question_type:
  "map (\<lambda>T. filter (\<lambda>R. question_fk R = Some T) response_classes)
     [DynamicTextQuestion, DynamicMultipleChoiceQuestion, DynamicYesNoQuestion,
      DynamicRatingQuestion] =
     [[DynamicTextResponse], [DynamicMultipleChoiceResponse], [DynamicYesNoResponse],
      [DynamicRatingResponse]] \<and>
   list_all (\<lambda>R. \<not> abstract R \<and> hasattr R ''dynamic_response_set'' \<and> hasattr R ''question'')
     response_classes \<and>
   set (responses db self) =
     MultipleChoiceResponseObj `
       {r \<in> set (t_dynamicmultiplechoiceresponse db). cr_dynamic_response_set r = rs_id self} \<union>
     TextResponseObj `
       {r \<in> set (t_dynamictextresponse db). tr_dynamic_response_set r = rs_id self} \<union>
     RatingResponseObj `
       {r \<in> set (t_dynamicratingresponse db). rr_dynamic_response_set r = rs_id self} \<union>
     YesNoResponseObj `
       {r \<in> set (t_dynamicyesnoresponse db). yr_dynamic_response_set r = rs_id self}"
proof (intro conjI)
  show "map (\<lambda>T. filter (\<lambda>R. question_fk R = Some T) response_classes)
     [DynamicTextQuestion, DynamicMultipleChoiceQuestion, DynamicYesNoQuestion,
      DynamicRatingQuestion] =
     [[DynamicTextResponse], [DynamicMultipleChoiceResponse], [DynamicYesNoResponse],
      [DynamicRatingResponse]]"
    by (simp add: response_classes_def)
  show "list_all (\<lambda>R. \<not> abstract R \<and> hasattr R ''dynamic_response_set'' \<and> hasattr R ''question'')
     response_classes"
    by (simp add: response_classes_def abstract_def hasattr_def defining_class_def)
  show "set (responses db self) =
     MultipleChoiceResponseObj `
       {r \<in> set (t_dynamicmultiplechoiceresponse db). cr_dynamic_response_set r = rs_id self} \<union>
     TextResponseObj `
       {r \<in> set (t_dynamictextresponse db). tr_dynamic_response_set r = rs_id self} \<union>
     RatingResponseObj `
       {r \<in> set (t_dynamicratingresponse db). rr_dynamic_response_set r = rs_id self} \<union>
     YesNoResponseObj `
       {r \<in> set (t_dynamicyesnoresponse db). yr_dynamic_response_set r = rs_id self}"
    by (simp add: responses_def Un_assoc)
qed

subsection \<open>Saving responses by question type\<close>

text \<open>
  The loop of \<^verbatim>\<open>DynamicMultipleChoiceQuestion.save_response\<close> never gets to write a
  row, whatever it is given: the class it creates the row through is looked up on the
  wrong module.
\<close>

lemma save_choices_writes_nothing:
  "snd (save_choices db user question_id response_set rs) = db"
  by (cases rs) (simp_all add: django_db_models_def split: sum.split)

text \<open>
  C2 at concrete inputs: saving the displayed choice \<open>Red\<close> for the multiple-choice
  question raises AttributeError and stores nothing; \<^verbatim>\<open>DynamicRatingQuestion\<close> has no
  \<^verbatim>\<open>save_response\<close> of its own, and the inherited one, given the value of the
  rating's radio field, raises IndexError and stores nothing.
\<close>

theorem multiple_choice_and_rating_not_saved:
  "save_response example_db DynamicMultipleChoiceQuestion 7 2
     (PyList [''dynamic-multiple-choice-answer-1'']) 1 =
     (Inl (AttributeError ''module object has no attribute DynamicMultipleChoiceResponse''),
      example_db) \<and>
   save_response example_db DynamicRatingQuestion 7 4 (PyStr ''dynamic-rating-answer-1'') 1 =
     (Inl IndexError, example_db) \<and>
   defining_class DynamicRatingQuestion ''save_response'' = Some DynamicMultipleChoiceQuestion"
  by code_simp

subsection \<open>The name of a displayed choice leads back to its answer\<close>

lemma get_by_key: "get_by key pk tbl = Inr r \<Longrightarrow> key r = pk \<and> r \<in> set tbl"
proof -
  assume a: "get_by key pk tbl = Inr r"
  then have "filter (\<lambda>x. key x = pk) tbl = [r]"
    by (auto simp: get_by_def split: list.splits)
  then have "r \<in> set (filter (\<lambda>x. key x = pk) tbl)" by simp
  then show ?thesis by simp
qed

lemma filter_key_distinct:
  "distinct (map key tbl) \<Longrightarrow> a \<in> set tbl \<Longrightarrow> filter (\<lambda>x. key x = key a) tbl = [a]"
proof (induction tbl)
  case Nil
  then show ?case by simp
next
  case (Cons b tbl)
  show ?case
  proof (cases "a = b")
    case True
    from Cons.prems(1) have "key b \<notin> key ` set tbl" by simp
    then have "key x \<noteq> key b" if "x \<in> set tbl" for x
      using that by (metis imageI)
    then have "filter (\<lambda>x. key x = key b) tbl = []"
      by (simp add: filter_empty_conv)
    with True show ?thesis by simp
  next
    case False
    with Cons.prems have in_tl: "a \<in> set tbl" by simp
    with Cons.prems(1) have "key b \<noteq> key a" by auto
    with Cons in_tl show ?thesis by simp
  qed
qed

lemma get_by_distinct:
  "distinct (map key tbl) \<Longrightarrow> a \<in> set tbl \<Longrightarrow> get_by key (key a) tbl = Inr a"
  by (simp add: get_by_def filter_key_distinct)

lemma get_question_fetched:
  assumes "get_question db c n = Inr self"
  shows "q_class self = c \<and> q_id self = Some n"
proof -
  from assms obtain r where
    r: "get_by row_id n
          (filter (\<lambda>r. list_all (\<lambda>d. row_id r \<in> set (ptrs db d)) (link_tables c))
             (t_dynamicformquestion db)) = Inr r"
    and s: "self = instance_of c r"
    by (auto simp: get_question_def split: sum.splits)
  from get_by_key [OF r] have "row_id r = n" by simp
  with s show ?thesis by (simp add: instance_of_def)
qed

lemma defining_get_choices_mc:
  "defining_class DynamicMultipleChoiceQuestion ''get_choices'' = Some DynamicMultipleChoiceQuestion"
  by (simp add: defining_class_def)

text \<open>
  A name whose answer is found takes \<^verbatim>\<open>save_response\<close> past the lookup, to the
  creation of the row.
\<close>

lemma save_one_displayed_choice:
  assumes "get_question db DynamicMultipleChoiceQuestion question_id = Inr self"
    and "answer_for db r = Inr a"
  shows "save_response db DynamicMultipleChoiceQuestion user question_id (PyList [r])
           response_set =
         (Inl (AttributeError ''module object has no attribute DynamicMultipleChoiceResponse''),
          db)"
  using assms
  by (simp add: save_response_def defining_save_response_mc
      DynamicMultipleChoiceQuestion_save_response_def django_db_models_def)

text \<open>
  C9. For a multiple-choice question fetched from the database (the keys of the answer
  table being unique), \<^verbatim>\<open>get_choices\<close> returns one choice for each answer of the
  question, in order: its name is \<^verbatim>\<open>'dynamic-multiple-choice-answer-%d'\<close> of the
  answer's primary key \<open>n\<close>, beside the answer's text. That name matches \<^verbatim>\<open>PATTERN\<close>
  with the digits of \<open>n\<close> as second group; reading the group as a number gives \<open>n\<close>
  back; the answer \<^verbatim>\<open>save_response\<close> looks up for the name is that very answer; and
  \<^verbatim>\<open>save_response\<close>, given the name, gets past the lookup (it ends in the
  AttributeError of the row's creation, not in an error of the lookup).
\<close>

theorem choice_name_round_trip:
  assumes "get_question db DynamicMultipleChoiceQuestion question_id = Inr self"
    and "distinct (map a_id (t_dynamicmultiplechoiceanswer db))"
  shows "\<exists>choices. get_choices db self = Inr choices \<and>
     list_all2
       (\<lambda>choice a.
          choice = (choice_name (a_id a), a_answer_text a) \<and>
          PATTERN_findall (fst choice) =
            [(''dynamic-multiple-choice-answer'', format_d (a_id a))] \<and>
          py_int (format_d (a_id a)) = Inr (a_id a) \<and>
          answer_for db (fst choice) = Inr a \<and>
          save_response db DynamicMultipleChoiceQuestion user question_id
            (PyList [fst choice]) response_set =
            (Inl (AttributeError
                    ''module object has no attribute DynamicMultipleChoiceResponse''),
             db))
       choices
       (filter (\<lambda>a. a_question a = question_id) (t_dynamicmultiplechoiceanswer db))"
proof -
  let ?answers = "filter (\<lambda>a. a_question a = question_id) (t_dynamicmultiplechoiceanswer db)"
  let ?choices = "map (\<lambda>a. (choice_name (a_id a), a_answer_text a)) ?answers"
  from get_question_fetched [OF assms(1)]
  have cls: "q_class self = DynamicMultipleChoiceQuestion" and pk: "q_id self = Some question_id"
    by simp_all
  have rel: "related_answers self (t_dynamicmultiplechoiceanswer db) = ?answers"
    by (simp add: related_answers_def pk)
  have gc: "get_choices db self = Inr ?choices"
    by (simp add: get_choices_def cls defining_get_choices_mc rel)
  have each: "answer_for db (choice_name (a_id a)) = Inr a" if "a \<in> set ?answers" for a
  proof -
    from that have "a \<in> set (t_dynamicmultiplechoiceanswer db)" by simp
    from get_by_distinct [OF assms(2) this] show ?thesis
      by (simp add: answer_for_def findall_choice_name py_int_format_d)
  qed
  have "list_all2
       (\<lambda>choice a.
          choice = (choice_name (a_id a), a_answer_text a) \<and>
          PATTERN_findall (fst choice) =
            [(''dynamic-multiple-choice-answer'', format_d (a_id a))] \<and>
          py_int (format_d (a_id a)) = Inr (a_id a) \<and>
          answer_for db (fst choice) = Inr a \<and>
          save_response db DynamicMultipleChoiceQuestion user question_id
            (PyList [fst choice]) response_set =
            (Inl (AttributeError
                    ''module object has no attribute DynamicMultipleChoiceResponse''),
             db))
       ?choices ?answers"
    unfolding list_all2_map1 list_all2_same
  proof
    fix a assume a: "a \<in> set ?answers"
    from each [OF a] save_one_displayed_choice [OF assms(1) each [OF a]]
    show "(choice_name (a_id a), a_answer_text a) = (choice_name (a_id a), a_answer_text a) \<and>
          PATTERN_findall (fst (choice_name (a_id a), a_answer_text a)) =
            [(''dynamic-multiple-choice-answer'', format_d (a_id a))] \<and>
          py_int (format_d (a_id a)) = Inr (a_id a) \<and>
          answer_for db (fst (choice_name (a_id a), a_answer_text a)) = Inr a \<and>
          save_response db DynamicMultipleChoiceQuestion user question_id
            (PyList [fst (choice_name (a_id a), a_answer_text a)]) response_set =
            (Inl (AttributeError
                    ''module object has no attribute DynamicMultipleChoiceResponse''),
             db)"
      by (simp add: findall_choice_name py_int_format_d)
  qed
  with gc show ?thesis by blast
qed

lemma get_question_example_mc:
  "get_question example_db DynamicMultipleChoiceQuestion 2 =
     Inr (instance_of DynamicMultipleChoiceQuestion (t_dynamicformquestion example_db ! 1))"
  by code_simp

theorem choice_name_round_trip_witness:
  "get_question example_db DynamicMultipleChoiceQuestion 2 =
     Inr (instance_of DynamicMultipleChoiceQuestion (t_dynamicformquestion example_db ! 1)) \<and>
   distinct (map a_id (t_dynamicmultiplechoiceanswer example_db)) \<and>
   get_choices example_db
     (instance_of DynamicMultipleChoiceQuestion (t_dynamicformquestion example_db ! 1)) =
     Inr [(''dynamic-multiple-choice-answer-1'', ''Red''),
          (''dynamic-multiple-choice-answer-2'', ''Blue'')] \<and>
   PATTERN_findall ''dynamic-multiple-choice-answer-2'' =
     [(''dynamic-multiple-choice-answer'', ''2'')] \<and>
   answer_for example_db ''dynamic-multiple-choice-answer-2'' =
     Inr \<lparr>a_id = 2, a_question = 2, a_answer_text = ''Blue''\<rparr> \<and>
   save_response example_db DynamicMultipleChoiceQuestion 7 2
     (PyList [''dynamic-multiple-choice-answer-2'']) 1 =
     (Inl (AttributeError ''module object has no attribute DynamicMultipleChoiceResponse''),
      example_db)"
proof -
  have d: "distinct (map a_id (t_dynamicmultiplechoiceanswer example_db))"
    by (simp add: example_db_def)
  have f: "filter (\<lambda>a. a_question a = 2) (t_dynamicmultiplechoiceanswer example_db) =
        [\<lparr>a_id = 1, a_question = 2, a_answer_text = ''Red''\<rparr>,
         \<lparr>a_id = 2, a_question = 2, a_answer_text = ''Blue''\<rparr>]"
    by (simp add: example_db_def)
  have n1: "choice_name (Suc 0) = ''dynamic-multiple-choice-answer-1''" by code_simp
  have n2: "choice_name 2 = ''dynamic-multiple-choice-answer-2''" by code_simp
  have f2: "format_d 2 = ''2''" by code_simp
  from choice_name_round_trip [OF get_question_example_mc d, of 7 1]
  show ?thesis
    unfolding f by (auto simp: list_all2_Cons2 n1 n2 f2 get_question_example_mc d)
qed

subsection \<open>Registering question types\<close>

lemma register_loop_prefix:
  assumes "list_all (\<lambda>t. get_class t = Inl QuestionTypeRegisterError \<or>
                         (\<exists>c pn m. get_class t = Inr c \<and> class_pretty_name c = Inr pn \<and>
                                   class_meta c = Inr m)) good"
  shows "\<exists>new. register_loop get_class (good @ rest) acc out =
           register_loop get_class rest (acc @ new)
             (out @ map (\<lambda>t. ''Failed to register '' @ t)
                      (filter (\<lambda>t. get_class t = Inl QuestionTypeRegisterError) good)) \<and>
         map (\<lambda>e. Inr (qt_class e)) new =
           filter (\<lambda>r. r \<noteq> Inl QuestionTypeRegisterError) (map get_class good) \<and>
         list_all (\<lambda>e. class_pretty_name (qt_class e) = Inr (qt_pretty_name e) \<and>
                        (\<exists>label. class_meta (qt_class e) = Inr (label, qt_slug e))) new"
  using assms
proof (induction good arbitrary: acc out)
  case Nil
  show ?case by (intro exI [of _ "[]"]) simp
next
  case (Cons t ts)
  from Cons.prems have rest: "list_all (\<lambda>t. get_class t = Inl QuestionTypeRegisterError \<or>
                         (\<exists>c pn m. get_class t = Inr c \<and> class_pretty_name c = Inr pn \<and>
                                   class_meta c = Inr m)) ts"
    by simp
  from Cons.prems consider
      (failed) "get_class t = Inl QuestionTypeRegisterError"
    | (imported) c pn m where "get_class t = Inr c" "class_pretty_name c = Inr pn"
        "class_meta c = Inr m"
    by auto
  then show ?case
  proof cases
    case failed
    from Cons.IH [OF rest, of acc "out @ [''Failed to register '' @ t]"]
    obtain new where
      "register_loop get_class (ts @ rest) acc (out @ [''Failed to register '' @ t]) =
         register_loop get_class rest (acc @ new)
           ((out @ [''Failed to register '' @ t]) @
            map (\<lambda>t. ''Failed to register '' @ t)
              (filter (\<lambda>t. get_class t = Inl QuestionTypeRegisterError) ts))"
      "map (\<lambda>e. Inr (qt_class e)) new =
         filter (\<lambda>r. r \<noteq> Inl QuestionTypeRegisterError) (map get_class ts)"
      "list_all (\<lambda>e. class_pretty_name (qt_class e) = Inr (qt_pretty_name e) \<and>
                      (\<exists>label. class_meta (qt_class e) = Inr (label, qt_slug e))) new"
      by blast
    with failed show ?thesis by (intro exI [of _ new]) simp
  next
    case imported
    let ?e = "\<lparr>qt_pretty_name = pn, qt_slug = snd m, qt_class = c\<rparr>"
    from Cons.IH [OF rest, of "acc @ [?e]" out]
    obtain new where
      "register_loop get_class (ts @ rest) (acc @ [?e]) out =
         register_loop get_class rest ((acc @ [?e]) @ new)
           (out @ map (\<lambda>t. ''Failed to register '' @ t)
                    (filter (\<lambda>t. get_class t = Inl QuestionTypeRegisterError) ts))"
      "map (\<lambda>e. Inr (qt_class e)) new =
         filter (\<lambda>r. r \<noteq> Inl QuestionTypeRegisterError) (map get_class ts)"
      "list_all (\<lambda>e. class_pretty_name (qt_class e) = Inr (qt_pretty_name e) \<and>
                      (\<exists>label. class_meta (qt_class e) = Inr (label, qt_slug e))) new"
      by blast
    moreover obtain label mn where "m = (label, mn)" by (cases m)
    ultimately show ?thesis using imported by (intro exI [of _ "?e # new"]) simp
  qed
qed

lemma register_loop_raises:
  assumes "get_class t = Inl e \<and> e \<noteq> QuestionTypeRegisterError \<or>
           (\<exists>c. get_class t = Inr c \<and>
                (class_pretty_name c = Inl e \<or>
                 (\<exists>pn. class_pretty_name c = Inr pn) \<and> class_meta c = Inl e))"
  shows "register_loop get_class (t # later) acc out = (Inl e, out)"
  using assms by auto

text \<open>
  C3, as amended. Split the configured strings, in input order, into a first part
  \<open>good\<close> in which every string either fails to import with
  \<^verbatim>\<open>QuestionTypeRegisterError\<close> or names a class whose \<^verbatim>\<open>pretty_name()\<close> returns and
  which has a \<^verbatim>\<open>_meta\<close>, and the rest. The classes imported from \<open>good\<close>, in input
  order and with exactly the strings that raised \<^verbatim>\<open>QuestionTypeRegisterError\<close> left
  out, each get an entry holding the class, its pretty name and its module name as
  slug, and one line \<^verbatim>\<open>Failed to register <string>\<close> is printed for each string left
  out. If there is no rest, the function returns these entries. If the rest starts
  with a string whose import raises another exception, or whose class raises in
  \<^verbatim>\<open>pretty_name()\<close>, or whose class has a pretty name but no \<^verbatim>\<open>_meta\<close>, that exception
  leaves the function: no registry is returned and no later string is looked at.
\<close>

theorem register_skips_failed_imports:
  assumes "concat tuples = good @ rest"
    and "list_all (\<lambda>t. get_class t = Inl QuestionTypeRegisterError \<or>
                         (\<exists>c pn m. get_class t = Inr c \<and> class_pretty_name c = Inr pn \<and>
                                   class_meta c = Inr m)) good"
  shows "\<exists>registry.
     map (\<lambda>e. Inr (qt_class e)) registry =
       filter (\<lambda>r. r \<noteq> Inl QuestionTypeRegisterError) (map get_class good) \<and>
     list_all (\<lambda>e. class_pretty_name (qt_class e) = Inr (qt_pretty_name e) \<and>
                    (\<exists>label. class_meta (qt_class e) = Inr (label, qt_slug e))) registry \<and>
     (rest = [] \<longrightarrow>
        register_questions_types get_class tuples =
          (Inr registry,
           map (\<lambda>t. ''Failed to register '' @ t)
             (filter (\<lambda>t. get_class t = Inl QuestionTypeRegisterError) good))) \<and>
     (rest = t # later \<and>
      (get_class t = Inl e \<and> e \<noteq> QuestionTypeRegisterError \<or>
       (\<exists>c. get_class t = Inr c \<and>
            (class_pretty_name c = Inl e \<or>
             (\<exists>pn. class_pretty_name c = Inr pn) \<and> class_meta c = Inl e))) \<longrightarrow>
        register_questions_types get_class tuples =
          (Inl e,
           map (\<lambda>t. ''Failed to register '' @ t)
             (filter (\<lambda>t. get_class t = Inl QuestionTypeRegisterError) good)))"
proof -
  from register_loop_prefix [OF assms(2), of rest "[]" "[]"] obtain registry where
    run: "register_loop get_class (good @ rest) [] [] =
           register_loop get_class rest registry
             (map (\<lambda>t. ''Failed to register '' @ t)
                (filter (\<lambda>t. get_class t = Inl QuestionTypeRegisterError) good))"
    and classes: "map (\<lambda>e. Inr (qt_class e)) registry =
           filter (\<lambda>r. r \<noteq> Inl QuestionTypeRegisterError) (map get_class good)"
    and entries: "list_all (\<lambda>e. class_pretty_name (qt_class e) = Inr (qt_pretty_name e) \<and>
                        (\<exists>label. class_meta (qt_class e) = Inr (label, qt_slug e))) registry"
    by auto
  have finished: "register_questions_types get_class tuples =
          (Inr registry,
           map (\<lambda>t. ''Failed to register '' @ t)
             (filter (\<lambda>t. get_class t = Inl QuestionTypeRegisterError) good))"
    if "rest = []"
    using run that by (simp add: register_questions_types_def assms(1))
  have raised: "register_questions_types get_class tuples =
          (Inl e,
           map (\<lambda>t. ''Failed to register '' @ t)
             (filter (\<lambda>t. get_class t = Inl QuestionTypeRegisterError) good))"
    if "rest = t # later \<and>
      (get_class t = Inl e \<and> e \<noteq> QuestionTypeRegisterError \<or>
       (\<exists>c. get_class t = Inr c \<and>
            (class_pretty_name c = Inl e \<or>
             (\<exists>pn. class_pretty_name c = Inr pn) \<and> class_meta c = Inl e)))"
  proof -
    from that have r: "rest = t # later" by (rule conjunct1)
    from that have "get_class t = Inl e \<and> e \<noteq> QuestionTypeRegisterError \<or>
       (\<exists>c. get_class t = Inr c \<and>
            (class_pretty_name c = Inl e \<or>
             (\<exists>pn. class_pretty_name c = Inr pn) \<and> class_meta c = Inl e))"
      by (rule conjunct2)
    from register_loop_raises [where get_class = get_class and t = t and e = e, OF this] run r
    show ?thesis
      by (simp only: register_questions_types_def assms(1))
  qed
  from classes entries finished raised show ?thesis by blast
qed

lemma get_class_dotted_examples:
  "get_class_dotted ''dynamicforms.models.DynamicTextQuestion'' =
     Inr (ModuleClass DynamicTextQuestion)"
  "get_class_dotted ''dynamicforms.models.DynamicYesNoQuestion'' =
     Inr (ModuleClass DynamicYesNoQuestion)"
  "get_class_dotted ''dynamicforms.models.DynamicMultipleChoiceQuestion'' =
     Inr (ModuleClass DynamicMultipleChoiceQuestion)"
  "get_class_dotted ''dynamicforms.models.DynamicRatingQuestion'' =
     Inr (ModuleClass DynamicRatingQuestion)"
  "get_class_dotted ''dynamicforms.models.DynamicFormQuestion'' =
     Inr (ModuleClass DynamicFormQuestion)"
  "get_class_dotted ''surveys.models.DateQuestion'' = Inr (ExternalClass DateQuestion)"
  "get_class_dotted ''surveys.helpers.Labelled'' = Inr (ExternalClass Labelled)"
  "get_class_dotted ''no.such.module.Question'' = Inl QuestionTypeRegisterError"
  "get_class_dotted ''surveys'' = Inl ValueError"
  by code_simp+

lemma class_pretty_name_examples:
  "class_pretty_name (ModuleClass DynamicTextQuestion) = Inr ''Text question''"
  "class_pretty_name (ModuleClass DynamicYesNoQuestion) = Inr ''Yes/No question''"
  "class_pretty_name (ModuleClass DynamicMultipleChoiceQuestion) =
     Inr ''Multiple choice question''"
  "class_pretty_name (ModuleClass DynamicRatingQuestion) = Inr ''Rating question''"
  "class_pretty_name (ModuleClass DynamicFormQuestion) =
     Inl (NotImplementedError ''You should resolve me first before you ask me my name'')"
  "class_pretty_name (ExternalClass DateQuestion) = Inr ''Date question''"
  "class_pretty_name (ExternalClass Labelled) = Inr ''Labelled''"
  by code_simp+

lemma class_meta_examples:
  "class_meta (ModuleClass DynamicTextQuestion) = Inr (''dynamicforms'', ''dynamictextquestion'')"
  "class_meta (ModuleClass DynamicYesNoQuestion) =
     Inr (''dynamicforms'', ''dynamicyesnoquestion'')"
  "class_meta (ModuleClass DynamicMultipleChoiceQuestion) =
     Inr (''dynamicforms'', ''dynamicmultiplechoicequestion'')"
  "class_meta (ModuleClass DynamicRatingQuestion) =
     Inr (''dynamicforms'', ''dynamicratingquestion'')"
  "class_meta (ExternalClass DateQuestion) = Inr (''surveys'', ''datequestion'')"
  "class_meta (ExternalClass Labelled) =
     Inl (AttributeError ''type object has no attribute _meta'')"
  by code_simp+

lemmas registry_examples =
  get_class_dotted_examples class_pretty_name_examples class_meta_examples

lemma defaults_import:
  "list_all (\<lambda>t. get_class_dotted t = Inl QuestionTypeRegisterError \<or>
                 (\<exists>c pn m. get_class_dotted t = Inr c \<and> class_pretty_name c = Inr pn \<and>
                           class_meta c = Inr m))
     (''no.such.module.Question'' # DEFAULT_QUESTION_TYPES @ example_custom_types)"
  unfolding DEFAULT_QUESTION_TYPES_def example_custom_types_def
  by (simp add: registry_examples del: class_pretty_name.simps class_meta.simps)

theorem register_skips_failed_imports_witness:
  "register_questions_types get_class_dotted [DEFAULT_QUESTION_TYPES, example_custom_types] =
     (Inr example_registry, [''Failed to register no.such.module.Question'']) \<and>
   get_class_dotted ''surveys'' = Inl ValueError \<and>
   register_questions_types get_class_dotted
     [[''no.such.module.Question''], DEFAULT_QUESTION_TYPES,
      [''surveys'', ''surveys.models.DateQuestion'']] =
     (Inl ValueError, [''Failed to register no.such.module.Question'']) \<and>
   get_class_dotted ''dynamicforms.models.DynamicFormQuestion'' =
     Inr (ModuleClass DynamicFormQuestion) \<and>
   class_pretty_name (ModuleClass DynamicFormQuestion) =
     Inl (NotImplementedError ''You should resolve me first before you ask me my name'') \<and>
   register_questions_types get_class_dotted
     [DEFAULT_QUESTION_TYPES,
      [''dynamicforms.models.DynamicFormQuestion'', ''no.such.module.Question'']] =
     (Inl (NotImplementedError ''You should resolve me first before you ask me my name''), []) \<and>
   get_class_dotted ''surveys.helpers.Labelled'' = Inr (ExternalClass Labelled) \<and>
   class_pretty_name (ExternalClass Labelled) = Inr ''Labelled'' \<and>
   class_meta (ExternalClass Labelled) =
     Inl (AttributeError ''type object has no attribute _meta'') \<and>
   register_questions_types get_class_dotted
     [DEFAULT_QUESTION_TYPES, [''surveys.helpers.Labelled'']] =
     (Inl (AttributeError ''type object has no attribute _meta''), [])"
proof -
  let ?ok = "\<lambda>t. get_class_dotted t = Inl QuestionTypeRegisterError \<or>
                 (\<exists>c pn m. get_class_dotted t = Inr c \<and> class_pretty_name c = Inr pn \<and>
                           class_meta c = Inr m)"
  have all: "list_all ?ok (''no.such.module.Question'' # DEFAULT_QUESTION_TYPES @
                             example_custom_types)"
    by (rule defaults_import)
  then have g1: "list_all ?ok (DEFAULT_QUESTION_TYPES @ example_custom_types)" by simp
  from all have g2: "list_all ?ok (''no.such.module.Question'' # DEFAULT_QUESTION_TYPES)"
    by simp
  from all have g3: "list_all ?ok DEFAULT_QUESTION_TYPES" by simp
  have log0: "filter (\<lambda>t. get_class_dotted t = Inl QuestionTypeRegisterError)
                DEFAULT_QUESTION_TYPES = []"
    unfolding DEFAULT_QUESTION_TYPES_def by (simp add: registry_examples del: class_pretty_name.simps class_meta.simps)
  have log1: "filter (\<lambda>t. get_class_dotted t = Inl QuestionTypeRegisterError)
                example_custom_types = [''no.such.module.Question'']"
    unfolding example_custom_types_def by (simp add: registry_examples del: class_pretty_name.simps class_meta.simps)
  have c1: "concat [DEFAULT_QUESTION_TYPES, example_custom_types] =
            (DEFAULT_QUESTION_TYPES @ example_custom_types) @ []"
    by simp
  from register_skips_failed_imports [OF c1 g1] obtain registry where
    "register_questions_types get_class_dotted [DEFAULT_QUESTION_TYPES, example_custom_types] =
       (Inr registry,
        map (\<lambda>t. ''Failed to register '' @ t)
          (filter (\<lambda>t. get_class_dotted t = Inl QuestionTypeRegisterError)
             (DEFAULT_QUESTION_TYPES @ example_custom_types)))"
    by blast
  moreover have "fst (register_questions_types get_class_dotted
                        [DEFAULT_QUESTION_TYPES, example_custom_types]) = Inr example_registry"
    by code_simp
  ultimately have w1:
    "register_questions_types get_class_dotted [DEFAULT_QUESTION_TYPES, example_custom_types] =
       (Inr example_registry, [''Failed to register no.such.module.Question''])"
    by (simp add: log0 log1)
  have c2: "concat [[''no.such.module.Question''], DEFAULT_QUESTION_TYPES,
                    [''surveys'', ''surveys.models.DateQuestion'']] =
            (''no.such.module.Question'' # DEFAULT_QUESTION_TYPES) @
            ''surveys'' # [''surveys.models.DateQuestion'']"
    by simp
  from register_skips_failed_imports [OF c2 g2,
      where t = "''surveys''" and later = "[''surveys.models.DateQuestion'']" and e = ValueError]
  have w2: "register_questions_types get_class_dotted
     [[''no.such.module.Question''], DEFAULT_QUESTION_TYPES,
      [''surveys'', ''surveys.models.DateQuestion'']] =
     (Inl ValueError, [''Failed to register no.such.module.Question''])"
    by (auto simp: registry_examples log0 simp del: class_pretty_name.simps class_meta.simps)
  have c3: "concat [DEFAULT_QUESTION_TYPES,
                    [''dynamicforms.models.DynamicFormQuestion'', ''no.such.module.Question'']] =
            DEFAULT_QUESTION_TYPES @
            ''dynamicforms.models.DynamicFormQuestion'' # [''no.such.module.Question'']"
    by simp
  from register_skips_failed_imports [OF c3 g3,
      where t = "''dynamicforms.models.DynamicFormQuestion''"
        and later = "[''no.such.module.Question'']"
        and e = "NotImplementedError ''You should resolve me first before you ask me my name''"]
  have w3: "register_questions_types get_class_dotted
     [DEFAULT_QUESTION_TYPES,
      [''dynamicforms.models.DynamicFormQuestion'', ''no.such.module.Question'']] =
     (Inl (NotImplementedError ''You should resolve me first before you ask me my name''), [])"
    by (auto simp: registry_examples log0 simp del: class_pretty_name.simps class_meta.simps)
  have c4: "concat [DEFAULT_QUESTION_TYPES, [''surveys.helpers.Labelled'']] =
            DEFAULT_QUESTION_TYPES @ ''surveys.helpers.Labelled'' # []"
    by simp
  from register_skips_failed_imports [OF c4 g3,
      where t = "''surveys.helpers.Labelled''" and later = "[]"
        and e = "AttributeError ''type object has no attribute _meta''"]
  have w4: "register_questions_types get_class_dotted
     [DEFAULT_QUESTION_TYPES, [''surveys.helpers.Labelled'']] =
     (Inl (AttributeError ''type object has no attribute _meta''), [])"
    by (auto simp: registry_examples log0 simp del: class_pretty_name.simps class_meta.simps)
  from w1 w2 w3 w4 show ?thesis by (simp add: registry_examples del: class_pretty_name.simps class_meta.simps)
qed

text \<open>
  C3 as stated fails: a type that imports but whose \<^verbatim>\<open>pretty_name()\<close> raises, as
  that of \<^verbatim>\<open>DynamicFormQuestion\<close> does, or that has no \<^verbatim>\<open>_meta\<close>, is not skipped.
  The exception leaves the function and no registry is returned, although the four
  default types before it were imported.
\<close>

theorem register_aborts_counterexample:
  "get_class_dotted ''dynamicforms.models.DynamicFormQuestion'' =
     Inr (ModuleClass DynamicFormQuestion) \<and>
   register_questions_types get_class_dotted
     [DEFAULT_QUESTION_TYPES,
      [''dynamicforms.models.DynamicFormQuestion'', ''no.such.module.Question'']] =
     (Inl (NotImplementedError ''You should resolve me first before you ask me my name''), []) \<and>
   get_class_dotted ''surveys.helpers.Labelled'' = Inr (ExternalClass Labelled) \<and>
   register_questions_types get_class_dotted
     [DEFAULT_QUESTION_TYPES, [''surveys.helpers.Labelled'']] =
     (Inl (AttributeError ''type object has no attribute _meta''), [])"
  by code_simp

subsection \<open>The registry after loading\<close>

lemma register_loop_classes:
  "register_loop get_class ts acc out = (Inr r, l) \<Longrightarrow>
   \<exists>new. r = acc @ new \<and>
     map (\<lambda>e. Inr (qt_class e)) new =
       filter (\<lambda>r. r \<noteq> Inl QuestionTypeRegisterError) (map get_class ts)"
proof (induction ts arbitrary: acc out)
  case Nil
  then show ?case by simp
next
  case (Cons t ts)
  show ?case
  proof (cases "get_class t")
    case (Inl e)
    with Cons.prems have e: "e = QuestionTypeRegisterError"
      by (simp split: if_splits)
    with Cons.prems Inl have
      "register_loop get_class ts acc (out @ [''Failed to register '' @ t]) = (Inr r, l)"
      by simp
    from Cons.IH [OF this] Inl e show ?thesis by simp
  next
    case (Inr c)
    with Cons.prems obtain pn where pn: "class_pretty_name c = Inr pn"
      by (cases "class_pretty_name c") simp_all
    with Cons.prems Inr obtain m where m: "class_meta c = Inr m"
      by (cases "class_meta c") simp_all
    let ?e = "\<lparr>qt_pretty_name = pn, qt_slug = snd m, qt_class = c\<rparr>"
    from Cons.prems Inr pn m have "register_loop get_class ts (acc @ [?e]) out = (Inr r, l)"
      by simp
    from Cons.IH [OF this] obtain new where
      "r = (acc @ [?e]) @ new"
      "map (\<lambda>e. Inr (qt_class e)) new =
         filter (\<lambda>r. r \<noteq> Inl QuestionTypeRegisterError) (map get_class ts)"
      by blast
    with Inr show ?thesis by (intro exI [of _ "?e # new"]) simp
  qed
qed

lemma register_admin_loop_keeps:
  "QUESTION_TYPES (snd (register_admin_loop ts m)) = QUESTION_TYPES m"
  by (induction ts arbitrary: m) (auto simp: Let_def split: option.split)

lemma register_admin_keeps: "QUESTION_TYPES (snd (register_admin m)) = QUESTION_TYPES m"
  by (simp add: register_admin_def register_admin_loop_keeps)

lemma exec_keeps: "QUESTION_TYPES (exec get_class m call) = QUESTION_TYPES m"
  by (cases call) (simp_all add: register_admin_keeps)

lemma run_keeps: "QUESTION_TYPES (foldl (exec get_class) m calls) = QUESTION_TYPES m"
  by (induction calls arbitrary: m) (simp_all add: exec_keeps)

lemma module_load_registry:
  assumes "module_load get_class custom db0 = Inr m"
  shows "\<exists>out. register_questions_types get_class [DEFAULT_QUESTION_TYPES, custom] =
           (Inr (QUESTION_TYPES m), out)"
proof -
  obtain r out where reg:
    "register_questions_types get_class [DEFAULT_QUESTION_TYPES, custom] = (r, out)"
    by (cases "register_questions_types get_class [DEFAULT_QUESTION_TYPES, custom]")
  from assms reg obtain registry where r: "r = Inr registry"
    by (cases r) (simp_all add: module_load_def)
  from assms reg r obtain choices where c: "get_creation_choices registry = Inr choices"
    by (cases "get_creation_choices registry") (simp_all add: module_load_def)
  let ?m0 = "\<lparr>QUESTION_TYPES = registry, CHOICES = choices,
              admin_registry = [], StackedInline_model = None, stdout = out, ms_db = db0\<rparr>"
  from assms reg r c have "snd (register_admin ?m0) = m"
    by (auto simp: module_load_def split: prod.splits sum.splits)
  then have "QUESTION_TYPES m = registry"
    using register_admin_keeps [of ?m0] by simp
  with reg r show ?thesis by simp
qed

text \<open>
  C7. If the module loads, then after any sequence of calls of its operations
  \<^verbatim>\<open>QUESTION_TYPES\<close> is still the registry that \<^verbatim>\<open>register_questions_types\<close> returned at
  load time for the default types and the configured custom types; its classes are
  the imported default types, in order, followed by the imported custom types, in
  order.
\<close>

theorem QUESTION_TYPES_fixed_at_load:
  assumes "module_load get_class custom db0 = Inr m"
  shows "fst (register_questions_types get_class [DEFAULT_QUESTION_TYPES, custom]) =
           Inr (QUESTION_TYPES (foldl (exec get_class) m calls)) \<and>
         map (\<lambda>e. Inr (qt_class e)) (QUESTION_TYPES (foldl (exec get_class) m calls)) =
           filter (\<lambda>r. r \<noteq> Inl QuestionTypeRegisterError)
             (map get_class DEFAULT_QUESTION_TYPES) @
           filter (\<lambda>r. r \<noteq> Inl QuestionTypeRegisterError) (map get_class custom)"
proof -
  from module_load_registry [OF assms] obtain out where
    reg: "register_questions_types get_class [DEFAULT_QUESTION_TYPES, custom] =
            (Inr (QUESTION_TYPES m), out)"
    by blast
  then have "register_loop get_class (DEFAULT_QUESTION_TYPES @ custom) [] [] =
               (Inr (QUESTION_TYPES m), out)"
    by (simp add: register_questions_types_def)
  from register_loop_classes [OF this]
  have "map (\<lambda>e. Inr (qt_class e)) (QUESTION_TYPES m) =
          filter (\<lambda>r. r \<noteq> Inl QuestionTypeRegisterError)
            (map get_class (DEFAULT_QUESTION_TYPES @ custom))"
    by simp
  with reg show ?thesis by (simp add: run_keeps)
qed

theorem QUESTION_TYPES_fixed_at_load_witness:
  "module_load get_class_dotted example_custom_types example_db = Inr example_module \<and>
   fst (register_questions_types get_class_dotted
          [DEFAULT_QUESTION_TYPES, example_custom_types]) = Inr example_registry \<and>
   QUESTION_TYPES (foldl (exec get_class_dotted) example_module example_operations) =
     example_registry \<and>
   map qt_class example_registry =
     [ModuleClass DynamicTextQuestion, ModuleClass DynamicYesNoQuestion,
      ModuleClass DynamicMultipleChoiceQuestion, ModuleClass DynamicRatingQuestion,
      ExternalClass DateQuestion] \<and>
   filter (\<lambda>r. r \<noteq> Inl QuestionTypeRegisterError)
     (map get_class_dotted example_custom_types) = [Inr (ExternalClass DateQuestion)]"
proof -
  have l: "module_load get_class_dotted example_custom_types example_db = Inr example_module"
    by code_simp
  have c: "map qt_class example_registry =
     [ModuleClass DynamicTextQuestion, ModuleClass DynamicYesNoQuestion,
      ModuleClass DynamicMultipleChoiceQuestion, ModuleClass DynamicRatingQuestion,
      ExternalClass DateQuestion]"
    by (simp add: example_registry_def)
  have f: "filter (\<lambda>r. r \<noteq> Inl QuestionTypeRegisterError)
     (map get_class_dotted example_custom_types) = [Inr (ExternalClass DateQuestion)]"
    by code_simp
  have q: "QUESTION_TYPES example_module = example_registry"
    by (simp add: example_module_def)
  from QUESTION_TYPES_fixed_at_load [OF l, of example_operations]
  have "fst (register_questions_types get_class_dotted
          [DEFAULT_QUESTION_TYPES, example_custom_types]) =
        Inr (QUESTION_TYPES (foldl (exec get_class_dotted) example_module example_operations))"
    by (rule conjunct1)
  moreover have "QUESTION_TYPES (foldl (exec get_class_dotted) example_module example_operations) =
     example_registry"
    by code_simp
  ultimately show ?thesis using l c f by simp
qed

end
